theory Spec2Isabelle
  imports Complex_Main "HOL-Library.Word" "HOL-Library.Monad_Syntax"
begin

section \<open>Numbers, vectors and loops\<close>

text \<open>
  The library computes with \<^verbatim>\<open>double\<close>, \<^verbatim>\<open>int\<close> and \<^verbatim>\<open>unsigned int\<close>.
  \<^item> A \<^verbatim>\<open>double\<close> is modelled by a real number: the arithmetic is the exact one, rounding
    is not modelled. A \<^verbatim>\<open>double\<close> that may hold the sentinel \<^verbatim>\<open>infinity\<close>
    (the cutoff of \<^verbatim>\<open>Plain\<close>, an absent Debye length, \<^verbatim>\<open>eps_sur\<close>) is an \<open>xdouble\<close>.
    Where the source divides a \<^verbatim>\<open>double\<close> by zero (a separation, cutoff, Debye length or
    damping parameter that is zero) it yields an infinity or a NaN, and the quotient of the
    model, which is \<open>0\<close>, stands for nothing; the callers have to keep these away from zero.
  \<^item> An \<^verbatim>\<open>int\<close> is an \<open>int\<close>; the values an \<^verbatim>\<open>int\<close> can hold are those of \<open>int32\<close>.
  \<^item> An \<^verbatim>\<open>unsigned int\<close> is a \<open>32 word\<close>: \<open>+\<close>, \<open>-\<close>, \<open>*\<close> wrap around, \<open>div\<close> is the
    unsigned division, and an \<^verbatim>\<open>int\<close> passed where an \<^verbatim>\<open>unsigned int\<close> is expected is
    converted by \<open>word_of_int\<close>, that is modulo \<open>2 ^ 32\<close>. Dividing an unsigned integer by
    zero is undefined behaviour: the functions that can do so return \<open>None\<close> there.
\<close>

datatype xdouble = Finite real | Infinity

definition int32 :: "int \<Rightarrow> bool" where
  "int32 i \<longleftrightarrow> - (2 ^ 31) \<le> i \<and> i < 2 ^ 31"

text \<open>\<^verbatim>\<open>1.0 / x\<close>, \<^verbatim>\<open>x * x\<close>, \<^verbatim>\<open>a / x\<close> and \<^verbatim>\<open>r < x\<close> for an \<open>x\<close> that may be infinite.\<close>

fun inverse_x :: "xdouble \<Rightarrow> real" where
  "inverse_x (Finite c) = 1 / c"
| "inverse_x Infinity = 0"

fun square_x :: "xdouble \<Rightarrow> xdouble" where
  "square_x (Finite c) = Finite (c * c)"
| "square_x Infinity = Infinity"

fun divide_x :: "real \<Rightarrow> xdouble \<Rightarrow> real" where
  "divide_x a (Finite c) = a / c"
| "divide_x a Infinity = 0"

fun less_x :: "real \<Rightarrow> xdouble \<Rightarrow> bool" where
  "less_x r (Finite c) \<longleftrightarrow> r < c"
| "less_x r Infinity \<longleftrightarrow> True"

text \<open>The separation \<open>r\<close> has reached the cutoff, and the cutoff is not negative.\<close>

fun reaches :: "real \<Rightarrow> xdouble \<Rightarrow> bool" where
  "reaches r (Finite c) \<longleftrightarrow> c \<le> r"
| "reaches r Infinity \<longleftrightarrow> False"

fun nonnegative_x :: "xdouble \<Rightarrow> bool" where
  "nonnegative_x (Finite c) \<longleftrightarrow> 0 \<le> c"
| "nonnegative_x Infinity \<longleftrightarrow> True"

subsection \<open>\<^verbatim>\<open>Eigen::Vector3d\<close>\<close>

datatype vec3 = Vec3 real real real

definition zero3 :: vec3 where
  "zero3 = Vec3 0 0 0"

fun dot :: "vec3 \<Rightarrow> vec3 \<Rightarrow> real" where
  "dot (Vec3 a b c) (Vec3 x y z) = a * x + b * y + c * z"

fun cross :: "vec3 \<Rightarrow> vec3 \<Rightarrow> vec3" where
  "cross (Vec3 a b c) (Vec3 x y z) = Vec3 (b * z - c * y) (c * x - a * z) (a * y - b * x)"

definition squaredNorm :: "vec3 \<Rightarrow> real" where
  "squaredNorm v = dot v v"

definition norm3 :: "vec3 \<Rightarrow> real" where
  "norm3 v = sqrt (squaredNorm v)"

fun scale :: "real \<Rightarrow> vec3 \<Rightarrow> vec3" where
  "scale s (Vec3 x y z) = Vec3 (s * x) (s * y) (s * z)"

fun shrink :: "vec3 \<Rightarrow> real \<Rightarrow> vec3" where
  "shrink (Vec3 x y z) s = Vec3 (x / s) (y / s) (z / s)"

fun plus3 :: "vec3 \<Rightarrow> vec3 \<Rightarrow> vec3" where
  "plus3 (Vec3 a b c) (Vec3 x y z) = Vec3 (a + x) (b + y) (c + z)"

fun minus3 :: "vec3 \<Rightarrow> vec3 \<Rightarrow> vec3" where
  "minus3 (Vec3 a b c) (Vec3 x y z) = Vec3 (a - x) (b - y) (c - z)"

fun uminus3 :: "vec3 \<Rightarrow> vec3" where
  "uminus3 (Vec3 x y z) = Vec3 (- x) (- y) (- z)"

subsection \<open>\<^verbatim>\<open>for (int i = lo; i < hi; i++)\<close>\<close>

function for_loop :: "int \<Rightarrow> int \<Rightarrow> (int \<Rightarrow> 'a \<Rightarrow> 'a) \<Rightarrow> 'a \<Rightarrow> 'a" where
  "for_loop i hi body s = (if i < hi then for_loop (i + 1) hi body (body i s) else s)"
  by pat_completeness auto
termination
  by (relation "measure (\<lambda>(i, hi, body, s). nat (hi - i))") auto

declare for_loop.simps [simp del]

subsection \<open>\<^verbatim>\<open>powi\<close>, \<^verbatim>\<open>factorial\<close>, \<^verbatim>\<open>binomial\<close>\<close>

text \<open>
  \<^verbatim>\<open>powi(x, n)\<close> is the recursion of the portable branch; \<^verbatim>\<open>__builtin_powi\<close> computes the same
  power for every exponent below \<open>2 ^ 31\<close>.
\<close>

function powi_d :: "real \<Rightarrow> 32 word \<Rightarrow> real" where
  "powi_d x n = (if n > 0 then x * powi_d x (n - 1) else 1)"
  by pat_completeness auto
termination
  by (relation "measure (\<lambda>(x, n). unat n)") (auto simp: measure_unat)

declare powi_d.simps [simp del]

function factorial :: "32 word \<Rightarrow> 32 word" where
  "factorial n = (if n \<le> 1 then 1 else n * factorial (n - 1))"
  by pat_completeness auto
termination
  by (relation "measure unat") (auto simp: word_le_nat_alt unat_sub not_le)

declare factorial.simps [simp del]

definition divide_u :: "32 word \<Rightarrow> 32 word \<Rightarrow> 32 word option" where
  "divide_u a b = (if b = 0 then None else Some (a div b))"

definition binomial :: "32 word \<Rightarrow> 32 word \<Rightarrow> 32 word option" where
  "binomial n k = do {
     a \<leftarrow> divide_u (factorial n) (factorial k);
     divide_u a (factorial (n - k))
   }"

section \<open>The q-Pochhammer symbol\<close>

definition qPochhammerSymbol :: "real \<Rightarrow> int \<Rightarrow> int \<Rightarrow> real" where
  "qPochhammerSymbol q l P =
    (let Ct = for_loop 1 (P + 1)
                (\<lambda>n Ct.
                   let val = for_loop 1 (n + l + 1)
                               (\<lambda>k val. val + powi_d q (word_of_int (k - 1))) 0
                   in Ct * val) 1;
         Dt = powi_d (1 - q) (word_of_int P)
     in Ct * Dt)"

text \<open>The older implementation of \<^verbatim>\<open>src/coulomb.h\<close>; \<^verbatim>\<open>std::pow(q, k)\<close> is \<open>q powi k\<close>.\<close>

definition coulomb_qPochhammerSymbol :: "real \<Rightarrow> int \<Rightarrow> int \<Rightarrow> real" where
  "coulomb_qPochhammerSymbol q k P =
    fst (for_loop 0 P (\<lambda>i (value, temp). (value * (1 - temp), temp * q)) (1, q powi k))"

definition qPochhammerSymbolDerivative :: "real \<Rightarrow> int \<Rightarrow> int \<Rightarrow> real" where
  "qPochhammerSymbolDerivative q l P =
    (let Ct = for_loop 1 (P + 1)
                (\<lambda>n Ct.
                   let val = for_loop 1 (n + l + 1)
                               (\<lambda>k val. val + powi_d q (word_of_int (k - 1))) 0
                   in Ct * val) 1;
         dCt = for_loop 1 (P + 1)
                (\<lambda>n dCt.
                   let (nom, denom) = for_loop 2 (n + l + 1)
                         (\<lambda>k (nom, denom).
                            (nom + real_of_int (k - 1) * powi_d q (word_of_int (k - 2)),
                             denom + powi_d q (word_of_int (k - 1)))) (0, 1)
                   in dCt + nom / denom) 0;
         dCt = dCt * Ct;
         Dt = powi_d (1 - q) (word_of_int P);
         dDt = (if P > 0 then real_of_int (- P) * powi_d (1 - q) (word_of_int (P - 1)) else 0)
     in Ct * dDt + dCt * Dt)"

definition qPochhammerSymbolSecondDerivative :: "real \<Rightarrow> int \<Rightarrow> int \<Rightarrow> real" where
  "qPochhammerSymbolSecondDerivative q l P =
    (let (Ct, DS, dDS) = for_loop 1 (P + 1)
           (\<lambda>n (Ct, DS, dDS).
              let tmp = for_loop 1 (n + l + 1)
                          (\<lambda>k tmp. tmp + powi_d q (word_of_int (k - 1))) 0;
                  Ct = Ct * tmp;
                  (nom, denom) = for_loop 2 (n + l + 1)
                    (\<lambda>k (nom, denom).
                       (nom + real_of_int (k - 1) * powi_d q (word_of_int (k - 2)),
                        denom + powi_d q (word_of_int (k - 1)))) (0, 1);
                  DS = DS + nom / denom;
                  (diffNom, diffDenom) = for_loop 3 (n + l + 1)
                    (\<lambda>k (diffNom, diffDenom).
                       (diffNom + real_of_int ((k - 1) * (k - 2)) * powi_d q (word_of_int (k - 3)),
                        diffDenom + real_of_int (k - 1) * powi_d q (word_of_int (k - 2)))) (0, 1);
                  dDS = dDS + (diffNom * denom - nom * diffDenom) / denom / denom
              in (Ct, DS, dDS)) (1, 0, 0);
         dCt = Ct * DS;
         ddCt = dCt * DS + Ct * dDS;
         Dt = powi_d (1 - q) (word_of_int P);
         dDt = (if P > 0 then real_of_int (- P) * powi_d (1 - q) (word_of_int (P - 1)) else 0);
         ddDt = (if P > 1 then real_of_int (P * (P - 1)) * powi_d (1 - q) (word_of_int (P - 2)) else 0)
     in Ct * ddDt + 2 * dCt * dDt + ddCt * Dt)"

definition qPochhammerSymbolThirdDerivative :: "real \<Rightarrow> int \<Rightarrow> int \<Rightarrow> real" where
  "qPochhammerSymbolThirdDerivative q l P =
    (let (Ct, DS, dDS, ddDS) = for_loop 1 (P + 1)
           (\<lambda>n (Ct, DS, dDS, ddDS).
              let tmp = for_loop 1 (n + l + 1)
                          (\<lambda>k tmp. tmp + powi_d q (word_of_int (k - 1))) 0;
                  Ct = Ct * tmp;
                  (f, g) = for_loop 2 (n + l + 1)
                    (\<lambda>k (f, g).
                       (f + real_of_int (k - 1) * powi_d q (word_of_int (k - 2)),
                        g + powi_d q (word_of_int (k - 1)))) (0, 1);
                  DS = DS + f / g;
                  (df, dg) = for_loop 3 (n + l + 1)
                    (\<lambda>k (df, dg).
                       (df + real_of_int ((k - 1) * (k - 2)) * powi_d q (word_of_int (k - 3)),
                        dg + real_of_int (k - 1) * powi_d q (word_of_int (k - 2))))
                    (0, if n + l > 1 then 1 else 0);
                  dDS = dDS + (df * g - f * dg) / g / g;
                  (ddf, ddg) = for_loop 4 (n + l + 1)
                    (\<lambda>k (ddf, ddg).
                       (ddf + real_of_int ((k - 1) * (k - 2) * (k - 3)) * powi_d q (word_of_int (k - 4)),
                        ddg + real_of_int ((k - 1) * (k - 2)) * powi_d q (word_of_int (k - 3))))
                    (0, if n + l > 2 then 2 else 0);
                  ddDS = ddDS + (ddf * g * g - 2 * df * dg * g + 2 * f * dg * dg - f * ddg * g) / g / g / g
              in (Ct, DS, dDS, ddDS)) (1, 0, 0, 0);
         dCt = Ct * DS;
         ddCt = dCt * DS + Ct * dDS;
         dddCt = ddCt * DS + 2 * dCt * dDS + Ct * ddDS;
         Dt = powi_d (1 - q) (word_of_int P);
         dDt = (if P > 0 then real_of_int (- P) * powi_d (1 - q) (word_of_int (P - 1)) else 0);
         ddDt = (if P > 1 then real_of_int (P * (P - 1)) * powi_d (1 - q) (word_of_int (P - 2)) else 0);
         dddDt = (if P > 2 then real_of_int (- P * (P - 1) * (P - 2)) * powi_d (1 - q) (word_of_int (P - 3))
                  else 0)
     in dddCt * Dt + 3 * ddCt * dDt + 3 * dCt * ddDt + Ct * dddDt)"

section \<open>The error function of the C library\<close>

text \<open>\<^verbatim>\<open>std::erf\<close> and \<^verbatim>\<open>std::erfc\<close>, by the power series of the error function.\<close>

definition erf :: "real \<Rightarrow> real" where
  "erf x = 2 / sqrt pi * (\<Sum>n. (- 1) ^ n * x ^ (2 * n + 1) / (fact n * real (2 * n + 1)))"

definition erfc :: "real \<Rightarrow> real" where
  "erfc x = 1 - erf x"

section \<open>Schemes\<close>

datatype Scheme = plain | ewald | wolf | poissonsimple | poisson | qpotential | fanourgakis

datatype failure = runtime_error string | out_of_range | division_by_zero

text \<open>\<^verbatim>\<open>std::array<double, 2>\<close>: two elements, \<^verbatim>\<open>size()\<close> is the constant 2, \<^verbatim>\<open>at(i)\<close> checks the index.\<close>

datatype array2 = Array2 real real

definition array2_size :: "array2 \<Rightarrow> nat" where
  "array2_size a = 2"

fun array2_at :: "array2 \<Rightarrow> int \<Rightarrow> real option" where
  "array2_at (Array2 a b) i = (if i = 0 then Some a else if i = 1 then Some b else None)"

subsection \<open>The members the derived classes add\<close>

record Ewald_members =
  alpha :: real
  alphaRed :: real
  alphaRed2 :: real
  alphaRed3 :: real
  eps_sur :: xdouble
  kappa :: real
  beta :: real
  beta2 :: real
  beta3 :: real
  sqrt_pi :: real

record Wolf_members =
  alpha :: real
  alphaRed :: real
  alphaRed2 :: real
  pi_sqrt :: real

record qPotential_members =
  order :: int

record PoissonSimple_members =
  C :: int
  D :: int

record Poisson_members =
  C :: int
  D :: int
  kappaRed :: real
  kappaRed2 :: real
  yukawa_denom :: real
  binomCDC :: real
  yukawa :: bool

datatype derived =
    D_Plain
  | D_Ewald Ewald_members
  | D_Wolf Wolf_members
  | D_qPotential qPotential_members
  | D_PoissonSimple PoissonSimple_members
  | D_Poisson Poisson_members
  | D_Fanourgakis

subsection \<open>\<^verbatim>\<open>SchemeBase\<close> and \<^verbatim>\<open>EnergyImplementation<T>\<close>\<close>

record SchemeBase =
  doi :: string
  name :: string
  scheme :: Scheme
  cutoff :: xdouble
  debye_length :: xdouble
  T0 :: real
  self_energy_prefactor :: array2

record EnergyImplementation = SchemeBase +
  invcutoff :: real
  cutoff2 :: xdouble
  kappa :: real

text \<open>An object of one of the derived classes: the base part and the members of its class.\<close>

record object = EnergyImplementation +
  derived :: derived

text \<open>
  The constructors of the two base classes. \<^verbatim>\<open>T0\<close> and \<^verbatim>\<open>self_energy_prefactor\<close> are
  assigned by the derived constructor only; until then they hold no meaningful value.
\<close>

definition SchemeBase :: "Scheme \<Rightarrow> xdouble \<Rightarrow> xdouble \<Rightarrow> SchemeBase" where
  "SchemeBase type c dl =
    \<lparr>doi = [], name = [], scheme = type, cutoff = c, debye_length = dl,
     T0 = 0, self_energy_prefactor = Array2 0 0\<rparr>"

definition EnergyImplementation :: "Scheme \<Rightarrow> xdouble \<Rightarrow> xdouble \<Rightarrow> EnergyImplementation" where
  "EnergyImplementation type c dl =
    SchemeBase.extend (SchemeBase type c dl)
      (EnergyImplementation.fields (inverse_x c) (square_x c) (inverse_x dl))"

definition calc_dielectric :: "object \<Rightarrow> real \<Rightarrow> real" where
  "calc_dielectric this M2V = (M2V * T0 this + 2 * M2V + 1) / (M2V * T0 this - M2V + 1)"

subsection \<open>Plain\<close>

definition Plain_short_range_function :: "real \<Rightarrow> real" where
  "Plain_short_range_function q = 1"

definition Plain_short_range_function_derivative :: "real \<Rightarrow> real" where
  "Plain_short_range_function_derivative q = 0"

definition Plain_short_range_function_second_derivative :: "real \<Rightarrow> real" where
  "Plain_short_range_function_second_derivative q = 0"

definition Plain_short_range_function_third_derivative :: "real \<Rightarrow> real" where
  "Plain_short_range_function_third_derivative q = 0"

definition Plain :: "xdouble \<Rightarrow> object" where
  "Plain dl =
    (let this = EnergyImplementation.extend (EnergyImplementation plain Infinity dl)
                  (object.fields D_Plain);
         this = this\<lparr>name := ''plain''\<rparr>;
         this = this\<lparr>doi := ''Premier m'' @ [CHR 0xC3, CHR 0xA9] @ ''moire sur l''
                  @ [CHR 0xE2, CHR 0x80, CHR 0x99, CHR 0xC3, CHR 0xA9] @ ''lectricit''
                  @ [CHR 0xC3, CHR 0xA9] @ '' et le magn'' @ [CHR 0xC3, CHR 0xA9]
                  @ ''tisme by Charles-Augustin de Coulomb''\<rparr>;
         this = this\<lparr>self_energy_prefactor := Array2 0 0\<rparr>
     in this\<lparr>T0 := Plain_short_range_function_derivative 1 - Plain_short_range_function 1
                     + Plain_short_range_function 0\<rparr>)"

subsection \<open>Ewald real-space\<close>

definition Ewald_short_range_function :: "Ewald_members \<Rightarrow> real \<Rightarrow> real" where
  "Ewald_short_range_function m q =
    0.5 * (erfc (Ewald_members.alphaRed m * q + beta m)
             * exp (4 * Ewald_members.alphaRed m * beta m * q)
           + erfc (Ewald_members.alphaRed m * q - beta m))"

definition Ewald_short_range_function_derivative :: "Ewald_members \<Rightarrow> real \<Rightarrow> real" where
  "Ewald_short_range_function_derivative m q =
    (let expC = exp (- powi_d (Ewald_members.alphaRed m * q - beta m) 2);
         erfcC = erfc (Ewald_members.alphaRed m * q + beta m)
     in - 2 * Ewald_members.alphaRed m / sqrt_pi m * expC
        + 2 * Ewald_members.alphaRed m * beta m * erfcC
            * exp (4 * Ewald_members.alphaRed m * beta m * q))"

definition Ewald_short_range_function_second_derivative :: "Ewald_members \<Rightarrow> real \<Rightarrow> real" where
  "Ewald_short_range_function_second_derivative m q =
    (let expC = exp (- powi_d (Ewald_members.alphaRed m * q - beta m) 2);
         erfcC = erfc (Ewald_members.alphaRed m * q + beta m)
     in 4 * Ewald_members.alphaRed2 m / sqrt_pi m
            * (Ewald_members.alphaRed m * q - 2 * beta m) * expC
        + 8 * Ewald_members.alphaRed2 m * beta2 m * erfcC
            * exp (4 * Ewald_members.alphaRed m * beta m * q))"

definition Ewald_short_range_function_third_derivative :: "Ewald_members \<Rightarrow> real \<Rightarrow> real" where
  "Ewald_short_range_function_third_derivative m q =
    (let expC = exp (- powi_d (Ewald_members.alphaRed m * q - beta m) 2);
         erfcC = erfc (Ewald_members.alphaRed m * q + beta m)
     in 4 * alphaRed3 m / sqrt_pi m
            * (1 - 2 * (Ewald_members.alphaRed m * q - 2 * beta m)
                     * (Ewald_members.alphaRed m * q - beta m) - 4 * beta2 m) * expC
        + 32 * alphaRed3 m * beta3 m * erfcC
            * exp (4 * Ewald_members.alphaRed m * beta m * q))"

text \<open>
  In the body of the constructor \<^verbatim>\<open>eps_sur\<close> is the parameter, which hides the member: the
  member keeps the value passed, \<^verbatim>\<open>T0\<close> is computed from the adjusted parameter. The base
  class is constructed from \<^verbatim>\<open>cutoff\<close> alone, so its Debye length is \<^verbatim>\<open>infinity\<close>;
  \<^verbatim>\<open>kappa\<close> in the body is the member of \<^verbatim>\<open>Ewald\<close>.
\<close>

definition Ewald :: "real \<Rightarrow> real \<Rightarrow> xdouble \<Rightarrow> xdouble \<Rightarrow> object" where
  "Ewald c a eps dl =
    (let sqrt_pi = 2 * sqrt (arctan 1);
         alphaRed = a * c;
         alphaRed2 = alphaRed * alphaRed;
         alphaRed3 = alphaRed2 * alphaRed;
         eps_par = (case eps of Finite e \<Rightarrow> if e < 1 then Infinity else eps | Infinity \<Rightarrow> eps);
         T0_val = (case eps_par of Infinity \<Rightarrow> 1 | Finite e \<Rightarrow> 2 * (e - 1) / (2 * e + 1));
         kappa = inverse_x dl;
         beta = kappa / (2 * a);
         beta2 = beta * beta;
         beta3 = beta2 * beta;
         m = \<lparr>Ewald_members.alpha = a, alphaRed = alphaRed, alphaRed2 = alphaRed2,
              alphaRed3 = alphaRed3, eps_sur = eps, kappa = kappa, beta = beta, beta2 = beta2,
              beta3 = beta3, sqrt_pi = sqrt_pi\<rparr>;
         this = EnergyImplementation.extend (EnergyImplementation ewald (Finite c) Infinity)
                  (object.fields (D_Ewald m));
         this = this\<lparr>name := ''Ewald real-space''\<rparr>;
         this = this\<lparr>T0 := T0_val\<rparr>
     in this\<lparr>self_energy_prefactor := Array2
          (- alphaRed / sqrt_pi * (exp (- beta2) + sqrt_pi * beta * erf beta))
          (- alphaRed3 * 2 / 3 / sqrt_pi
             * (2 * sqrt_pi * beta3 * erfc beta + (1 - 2 * beta2) * exp (- beta2)))\<rparr>)"

subsection \<open>Wolf\<close>

definition Wolf_short_range_function :: "Wolf_members \<Rightarrow> real \<Rightarrow> real" where
  "Wolf_short_range_function m q =
    erfc (Wolf_members.alphaRed m * q) - q * erfc (Wolf_members.alphaRed m)"

definition Wolf_short_range_function_derivative :: "Wolf_members \<Rightarrow> real \<Rightarrow> real" where
  "Wolf_short_range_function_derivative m q =
    - 2 * exp (- Wolf_members.alphaRed2 m * q * q) * Wolf_members.alphaRed m / pi_sqrt m
    - erfc (Wolf_members.alphaRed m)"

definition Wolf_short_range_function_second_derivative :: "Wolf_members \<Rightarrow> real \<Rightarrow> real" where
  "Wolf_short_range_function_second_derivative m q =
    4 * exp (- Wolf_members.alphaRed2 m * q * q) * Wolf_members.alphaRed2 m
      * Wolf_members.alphaRed m * q / pi_sqrt m"

definition Wolf_short_range_function_third_derivative :: "Wolf_members \<Rightarrow> real \<Rightarrow> real" where
  "Wolf_short_range_function_third_derivative m q =
    - 8 * exp (- Wolf_members.alphaRed2 m * q * q) * Wolf_members.alphaRed2 m
      * Wolf_members.alphaRed m * (Wolf_members.alphaRed2 m * q * q - 0.5) / pi_sqrt m"

definition Wolf :: "real \<Rightarrow> real \<Rightarrow> object" where
  "Wolf c a =
    (let pi_sqrt = 2 * sqrt (arctan 1);
         alphaRed = a * c;
         alphaRed2 = alphaRed * alphaRed;
         m = \<lparr>Wolf_members.alpha = a, alphaRed = alphaRed, alphaRed2 = alphaRed2,
              pi_sqrt = pi_sqrt\<rparr>;
         this = EnergyImplementation.extend (EnergyImplementation wolf (Finite c) Infinity)
                  (object.fields (D_Wolf m));
         this = this\<lparr>name := ''Wolf''\<rparr>;
         this = this\<lparr>self_energy_prefactor :=
                  Array2 (- alphaRed / pi_sqrt) (- powi_d alphaRed 3 * 2 / 3 / pi_sqrt)\<rparr>
     in this\<lparr>T0 := Wolf_short_range_function_derivative m 1 - Wolf_short_range_function m 1
                     + Wolf_short_range_function m 0\<rparr>)"

subsection \<open>qPotential\<close>

definition qPotential_short_range_function :: "qPotential_members \<Rightarrow> real \<Rightarrow> real" where
  "qPotential_short_range_function m q = qPochhammerSymbol q 0 (order m)"

definition qPotential_short_range_function_derivative :: "qPotential_members \<Rightarrow> real \<Rightarrow> real" where
  "qPotential_short_range_function_derivative m q = qPochhammerSymbolDerivative q 0 (order m)"

definition qPotential_short_range_function_second_derivative ::
    "qPotential_members \<Rightarrow> real \<Rightarrow> real" where
  "qPotential_short_range_function_second_derivative m q =
    qPochhammerSymbolSecondDerivative q 0 (order m)"

definition qPotential_short_range_function_third_derivative ::
    "qPotential_members \<Rightarrow> real \<Rightarrow> real" where
  "qPotential_short_range_function_third_derivative m q =
    qPochhammerSymbolThirdDerivative q 0 (order m)"

definition qPotential :: "real \<Rightarrow> int \<Rightarrow> object" where
  "qPotential c n =
    (let m = \<lparr>order = n\<rparr>;
         this = EnergyImplementation.extend (EnergyImplementation qpotential (Finite c) Infinity)
                  (object.fields (D_qPotential m));
         this = this\<lparr>name := ''qpotential''\<rparr>;
         this = this\<lparr>self_energy_prefactor := Array2 (- 1) (- 1)\<rparr>
     in this\<lparr>T0 := qPotential_short_range_function_derivative m 1
                     - qPotential_short_range_function m 1
                     + qPotential_short_range_function m 0\<rparr>)"

subsection \<open>PoissonSimple\<close>

definition PoissonSimple_short_range_function :: "PoissonSimple_members \<Rightarrow> real \<Rightarrow> real option" where
  "PoissonSimple_short_range_function m q = do {
     tmp \<leftarrow> for_loop 0 (PoissonSimple_members.C m)
       (\<lambda>c tmp. do {
          tmp \<leftarrow> tmp;
          b \<leftarrow> binomial (word_of_int (PoissonSimple_members.D m - 1 + c)) (word_of_int c);
          Some (tmp + real (unat b) * real_of_int (PoissonSimple_members.C m - c)
                        / real_of_int (PoissonSimple_members.C m) * powi_d q (word_of_int c))
        }) (Some 0);
     Some (powi_d (1 - q) (word_of_int (PoissonSimple_members.D m + 1)) * tmp)
   }"

definition PoissonSimple_short_range_function_derivative ::
    "PoissonSimple_members \<Rightarrow> real \<Rightarrow> real option" where
  "PoissonSimple_short_range_function_derivative m q = do {
     (tmp1, tmp2) \<leftarrow> for_loop 1 (PoissonSimple_members.C m)
       (\<lambda>c tmps. do {
          (tmp1, tmp2) \<leftarrow> tmps;
          b1 \<leftarrow> binomial (word_of_int (PoissonSimple_members.D m - 1 + c)) (word_of_int c);
          b2 \<leftarrow> binomial (word_of_int (PoissonSimple_members.D m - 1 + c)) (word_of_int c);
          Some (tmp1 + real (unat b1) * real_of_int (PoissonSimple_members.C m - c)
                         / real_of_int (PoissonSimple_members.C m) * powi_d q (word_of_int c),
                tmp2 + real (unat b2) * real_of_int (PoissonSimple_members.C m - c)
                         / real_of_int (PoissonSimple_members.C m) * real_of_int c
                         * powi_d q (word_of_int (c - 1)))
        }) (Some (1, 0));
     Some (- real_of_int (PoissonSimple_members.D m + 1)
             * powi_d (1 - q) (word_of_int (PoissonSimple_members.D m)) * tmp1
           + powi_d (1 - q) (word_of_int (PoissonSimple_members.D m + 1)) * tmp2)
   }"

definition PoissonSimple_short_range_function_second_derivative ::
    "PoissonSimple_members \<Rightarrow> real \<Rightarrow> real option" where
  "PoissonSimple_short_range_function_second_derivative m q = do {
     b \<leftarrow> binomial (word_of_int (PoissonSimple_members.C m + PoissonSimple_members.D m))
            (word_of_int (PoissonSimple_members.C m));
     Some (real (unat (b * word_of_int (PoissonSimple_members.D m)))
             * powi_d (1 - q) (word_of_int (PoissonSimple_members.D m - 1))
             * powi_d q (word_of_int (PoissonSimple_members.C m - 1)))
   }"

definition PoissonSimple_short_range_function_third_derivative ::
    "PoissonSimple_members \<Rightarrow> real \<Rightarrow> real option" where
  "PoissonSimple_short_range_function_third_derivative m q = do {
     b \<leftarrow> binomial (word_of_int (PoissonSimple_members.C m + PoissonSimple_members.D m))
            (word_of_int (PoissonSimple_members.C m));
     Some (real (unat (b * word_of_int (PoissonSimple_members.D m)))
             * powi_d (1 - q) (word_of_int (PoissonSimple_members.D m - 2))
             * powi_d q (word_of_int (PoissonSimple_members.C m - 2))
             * ((2 - real_of_int (PoissonSimple_members.C m + PoissonSimple_members.D m)) * q
                + real_of_int (PoissonSimple_members.C m) - 1))
   }"

text \<open>
  The constructors of the Poisson family throw when \<^verbatim>\<open>C < 1\<close> or \<^verbatim>\<open>D < -1\<close>; an integer
  division by zero while the members are computed is the failure \<open>division_by_zero\<close>.
\<close>

definition PoissonSimple :: "real \<Rightarrow> int \<Rightarrow> int \<Rightarrow> failure + object" where
  "PoissonSimple c C_par D_par =
    (let m = \<lparr>PoissonSimple_members.C = C_par, D = D_par\<rparr>;
         this = EnergyImplementation.extend (EnergyImplementation poisson (Finite c) Infinity)
                  (object.fields (D_PoissonSimple m))
     in if C_par < 1 \<or> D_par < - 1
        then Inl (runtime_error
          ''`C` must be larger than zero and `D` must be larger or equal to negative one'')
        else
          let this = this\<lparr>name := ''poisson''\<rparr>;
              this = this\<lparr>doi := ''10.1088/1367-2630/ab1ec1''\<rparr>;
              a1 = - real_of_int (C_par + D_par) / real_of_int C_par;
              this = this\<lparr>self_energy_prefactor := Array2 a1 a1\<rparr>
          in case (PoissonSimple_short_range_function_derivative m 1,
                   PoissonSimple_short_range_function m 1,
                   PoissonSimple_short_range_function m 0) of
               (Some s1, Some s, Some s0) \<Rightarrow> Inr (this\<lparr>T0 := s1 - s + s0\<rparr>)
             | _ \<Rightarrow> Inl division_by_zero)"

subsection \<open>Poisson\<close>

definition Poisson_short_range_function :: "Poisson_members \<Rightarrow> real \<Rightarrow> real option" where
  "Poisson_short_range_function m q =
    (let qp = q;
         qp = (if yukawa m then (1 - exp (2 * kappaRed m * q)) * yukawa_denom m else qp)
     in do {
       tmp \<leftarrow> for_loop 0 (Poisson_members.C m)
         (\<lambda>c tmp. do {
            tmp \<leftarrow> tmp;
            b \<leftarrow> binomial (word_of_int (Poisson_members.D m - 1 + c)) (word_of_int c);
            Some (tmp + real (unat b) * real_of_int (Poisson_members.C m - c)
                          / real_of_int (Poisson_members.C m) * powi_d qp (word_of_int c))
          }) (Some 0);
       Some (powi_d (1 - qp) (word_of_int (Poisson_members.D m + 1)) * tmp)
     })"

definition Poisson_short_range_function_derivative :: "Poisson_members \<Rightarrow> real \<Rightarrow> real option" where
  "Poisson_short_range_function_derivative m q =
    (let exp2kq = exp (2 * kappaRed m * q);
         qp = (if yukawa m then (1 - exp2kq) * yukawa_denom m else q);
         dqpdq = (if yukawa m then - 2 * kappaRed m * exp2kq * yukawa_denom m else 1)
     in do {
       (tmp1, tmp2) \<leftarrow> for_loop 1 (Poisson_members.C m)
         (\<lambda>c tmps. do {
            (tmp1, tmp2) \<leftarrow> tmps;
            b \<leftarrow> binomial (word_of_int (Poisson_members.D m - 1 + c)) (word_of_int c);
            let fact_c = real (unat b) * real_of_int (Poisson_members.C m - c)
                           / real_of_int (Poisson_members.C m);
            Some (tmp1 + fact_c * powi_d qp (word_of_int c),
                  tmp2 + fact_c * real_of_int c * powi_d qp (word_of_int (c - 1)))
          }) (Some (1, 0));
       let dSdqp = - real_of_int (Poisson_members.D m + 1)
                     * powi_d (1 - qp) (word_of_int (Poisson_members.D m)) * tmp1
                   + powi_d (1 - qp) (word_of_int (Poisson_members.D m + 1)) * tmp2;
       Some (dSdqp * dqpdq)
     })"

text \<open>
  The loop the second and the third derivative run when \<^verbatim>\<open>yukawa\<close> is set; it yields
  \<^verbatim>\<open>dSdqp\<close>, which is \<open>0\<close> otherwise.
\<close>

definition Poisson_dSdqp :: "Poisson_members \<Rightarrow> real \<Rightarrow> real option" where
  "Poisson_dSdqp m qp = do {
     (tmp1, tmp2) \<leftarrow> for_loop 1 (Poisson_members.C m)
       (\<lambda>c tmps. do {
          (tmp1, tmp2) \<leftarrow> tmps;
          b1 \<leftarrow> binomial (word_of_int (Poisson_members.D m - 1 + c)) (word_of_int c);
          b2 \<leftarrow> binomial (word_of_int (Poisson_members.D m - 1 + c)) (word_of_int c);
          Some (tmp1 + real (unat b1) * real_of_int (Poisson_members.C m - c)
                         / real_of_int (Poisson_members.C m) * powi_d qp (word_of_int c),
                tmp2 + real (unat b2) * real_of_int (Poisson_members.C m - c)
                         / real_of_int (Poisson_members.C m) * real_of_int c
                         * powi_d qp (word_of_int (c - 1)))
        }) (Some (1, 0));
     Some (- real_of_int (Poisson_members.D m + 1)
             * powi_d (1 - qp) (word_of_int (Poisson_members.D m)) * tmp1
           + powi_d (1 - qp) (word_of_int (Poisson_members.D m + 1)) * tmp2)
   }"

definition Poisson_short_range_function_second_derivative ::
    "Poisson_members \<Rightarrow> real \<Rightarrow> real option" where
  "Poisson_short_range_function_second_derivative m q =
    (let qp = (if yukawa m then (1 - exp (2 * kappaRed m * q)) * yukawa_denom m else q);
         dqpdq = (if yukawa m then - 2 * kappaRed m * exp (2 * kappaRed m * q) * yukawa_denom m
                  else 1);
         d2qpdq2 = (if yukawa m
                    then - 4 * kappaRed2 m * exp (2 * kappaRed m * q) * yukawa_denom m else 0)
     in do {
       dSdqp \<leftarrow> (if yukawa m then Poisson_dSdqp m qp else Some 0);
       let d2Sdqp2 = binomCDC m * powi_d (1 - qp) (word_of_int (Poisson_members.D m - 1))
                       * powi_d qp (word_of_int (Poisson_members.C m - 1));
       Some (d2Sdqp2 * dqpdq * dqpdq + dSdqp * d2qpdq2)
     })"

definition Poisson_short_range_function_third_derivative ::
    "Poisson_members \<Rightarrow> real \<Rightarrow> real option" where
  "Poisson_short_range_function_third_derivative m q =
    (let qp = (if yukawa m then (1 - exp (2 * kappaRed m * q)) * yukawa_denom m else q);
         dqpdq = (if yukawa m then - 2 * kappaRed m * exp (2 * kappaRed m * q) * yukawa_denom m
                  else 1);
         d2qpdq2 = (if yukawa m
                    then - 4 * kappaRed2 m * exp (2 * kappaRed m * q) * yukawa_denom m else 0);
         d3qpdq3 = (if yukawa m
                    then - 8 * kappaRed2 m * kappaRed m * exp (2 * kappaRed m * q) * yukawa_denom m
                    else 0);
         d2Sdqp2 = (if yukawa m
                    then binomCDC m * powi_d (1 - qp) (word_of_int (Poisson_members.D m - 1))
                           * powi_d qp (word_of_int (Poisson_members.C m - 1))
                    else 0)
     in do {
       dSdqp \<leftarrow> (if yukawa m then Poisson_dSdqp m qp else Some 0);
       let d3Sdqp3 = binomCDC m * powi_d (1 - qp) (word_of_int (Poisson_members.D m - 2))
                       * powi_d qp (word_of_int (Poisson_members.C m - 2))
                       * ((2 - real_of_int (Poisson_members.C m + Poisson_members.D m)) * qp
                          + real_of_int (Poisson_members.C m) - 1);
       Some (d3Sdqp3 * dqpdq * dqpdq * dqpdq + 3 * d2Sdqp2 * dqpdq * d2qpdq2 + dSdqp * d3qpdq3)
     })"

text \<open>
  \<^verbatim>\<open>kappaRed2\<close> and \<^verbatim>\<open>yukawa_denom\<close> are assigned only when \<^verbatim>\<open>yukawa\<close> is set, and read
  only then; without screening they are \<open>0\<close> here.
\<close>

definition Poisson :: "real \<Rightarrow> int \<Rightarrow> int \<Rightarrow> xdouble \<Rightarrow> failure + object" where
  "Poisson c C_par D_par dl =
    (if C_par < 1 \<or> D_par < - 1
     then Inl (runtime_error
       ''`C` must be larger than zero and `D` must be larger or equal to negative one'')
     else
       let a1 = - real_of_int (C_par + D_par) / real_of_int C_par;
           kappaRed = divide_x c dl;
           yukawa = (\<bar>kappaRed\<bar> > 1 / 1000000);
           kappaRed2 = (if yukawa then kappaRed * kappaRed else 0);
           yukawa_denom = (if yukawa then 1 / (1 - exp (2 * kappaRed)) else 0);
           a1 = (if yukawa then a1 * (- 2 * kappaRed * yukawa_denom) else a1)
       in case binomial (word_of_int (C_par + D_par)) (word_of_int C_par) of
            None \<Rightarrow> Inl division_by_zero
          | Some b \<Rightarrow>
              let binomCDC = real (unat (b * word_of_int D_par));
                  m = \<lparr>Poisson_members.C = C_par, D = D_par, kappaRed = kappaRed,
                       kappaRed2 = kappaRed2, yukawa_denom = yukawa_denom,
                       binomCDC = binomCDC, yukawa = yukawa\<rparr>;
                  this = EnergyImplementation.extend (EnergyImplementation poisson (Finite c) dl)
                           (object.fields (D_Poisson m));
                  this = this\<lparr>name := ''poisson''\<rparr>;
                  this = this\<lparr>doi := ''10.1088/1367-2630/ab1ec1''\<rparr>;
                  this = this\<lparr>self_energy_prefactor := Array2 a1 a1\<rparr>
              in (case (Poisson_short_range_function_derivative m 1,
                        Poisson_short_range_function m 1,
                        Poisson_short_range_function m 0) of
                    (Some s1, Some s, Some s0) \<Rightarrow> Inr (this\<lparr>T0 := s1 - s + s0\<rparr>)
                  | _ \<Rightarrow> Inl division_by_zero))"

subsection \<open>Fanourgakis\<close>

definition Fanourgakis_short_range_function :: "real \<Rightarrow> real" where
  "Fanourgakis_short_range_function q =
    powi_d (1 - q) 4 * (1 + 2.25 * q + 3 * q * q + 2.5 * q * q * q)"

definition Fanourgakis_short_range_function_derivative :: "real \<Rightarrow> real" where
  "Fanourgakis_short_range_function_derivative q =
    - 1.75 + 26.25 * powi_d q 4 - 42 * powi_d q 5 + 17.5 * powi_d q 6"

definition Fanourgakis_short_range_function_second_derivative :: "real \<Rightarrow> real" where
  "Fanourgakis_short_range_function_second_derivative q = 105 * powi_d q 3 * powi_d (q - 1) 2"

definition Fanourgakis_short_range_function_third_derivative :: "real \<Rightarrow> real" where
  "Fanourgakis_short_range_function_third_derivative q =
    525 * powi_d q 2 * (q - 0.6) * (q - 1)"

definition Fanourgakis :: "real \<Rightarrow> object" where
  "Fanourgakis c =
    (let this = EnergyImplementation.extend (EnergyImplementation qpotential (Finite c) Infinity)
                  (object.fields D_Fanourgakis);
         this = this\<lparr>name := ''fanourgakis''\<rparr>;
         this = this\<lparr>doi := ''10.1063/1.3216520''\<rparr>;
         this = this\<lparr>self_energy_prefactor := Array2 (- 1) (- 1)\<rparr>
     in this\<lparr>T0 := Fanourgakis_short_range_function_derivative 1
                     - Fanourgakis_short_range_function 1
                     + Fanourgakis_short_range_function 0\<rparr>)"

section \<open>The interaction energies of \<^verbatim>\<open>EnergyImplementation<T>\<close>\<close>

text \<open>
  \<^verbatim>\<open>static_cast<const T *>(this)->short_range_function(q)\<close> calls the function of the class
  of the object.
\<close>

definition short_range_function :: "object \<Rightarrow> real \<Rightarrow> real option" where
  "short_range_function this q =
    (case derived this of
       D_Plain \<Rightarrow> Some (Plain_short_range_function q)
     | D_Ewald m \<Rightarrow> Some (Ewald_short_range_function m q)
     | D_Wolf m \<Rightarrow> Some (Wolf_short_range_function m q)
     | D_qPotential m \<Rightarrow> Some (qPotential_short_range_function m q)
     | D_PoissonSimple m \<Rightarrow> PoissonSimple_short_range_function m q
     | D_Poisson m \<Rightarrow> Poisson_short_range_function m q
     | D_Fanourgakis \<Rightarrow> Some (Fanourgakis_short_range_function q))"

definition short_range_function_derivative :: "object \<Rightarrow> real \<Rightarrow> real option" where
  "short_range_function_derivative this q =
    (case derived this of
       D_Plain \<Rightarrow> Some (Plain_short_range_function_derivative q)
     | D_Ewald m \<Rightarrow> Some (Ewald_short_range_function_derivative m q)
     | D_Wolf m \<Rightarrow> Some (Wolf_short_range_function_derivative m q)
     | D_qPotential m \<Rightarrow> Some (qPotential_short_range_function_derivative m q)
     | D_PoissonSimple m \<Rightarrow> PoissonSimple_short_range_function_derivative m q
     | D_Poisson m \<Rightarrow> Poisson_short_range_function_derivative m q
     | D_Fanourgakis \<Rightarrow> Some (Fanourgakis_short_range_function_derivative q))"

definition short_range_function_second_derivative :: "object \<Rightarrow> real \<Rightarrow> real option" where
  "short_range_function_second_derivative this q =
    (case derived this of
       D_Plain \<Rightarrow> Some (Plain_short_range_function_second_derivative q)
     | D_Ewald m \<Rightarrow> Some (Ewald_short_range_function_second_derivative m q)
     | D_Wolf m \<Rightarrow> Some (Wolf_short_range_function_second_derivative m q)
     | D_qPotential m \<Rightarrow> Some (qPotential_short_range_function_second_derivative m q)
     | D_PoissonSimple m \<Rightarrow> PoissonSimple_short_range_function_second_derivative m q
     | D_Poisson m \<Rightarrow> Poisson_short_range_function_second_derivative m q
     | D_Fanourgakis \<Rightarrow> Some (Fanourgakis_short_range_function_second_derivative q))"

definition short_range_function_third_derivative :: "object \<Rightarrow> real \<Rightarrow> real option" where
  "short_range_function_third_derivative this q =
    (case derived this of
       D_Plain \<Rightarrow> Some (Plain_short_range_function_third_derivative q)
     | D_Ewald m \<Rightarrow> Some (Ewald_short_range_function_third_derivative m q)
     | D_Wolf m \<Rightarrow> Some (Wolf_short_range_function_third_derivative m q)
     | D_qPotential m \<Rightarrow> Some (qPotential_short_range_function_third_derivative m q)
     | D_PoissonSimple m \<Rightarrow> PoissonSimple_short_range_function_third_derivative m q
     | D_Poisson m \<Rightarrow> Poisson_short_range_function_third_derivative m q
     | D_Fanourgakis \<Rightarrow> Some (Fanourgakis_short_range_function_third_derivative q))"

definition ion_potential :: "object \<Rightarrow> real \<Rightarrow> real \<Rightarrow> real option" where
  "ion_potential this z r =
    (if less_x r (cutoff this) then do {
       let q = r * invcutoff this;
       srf \<leftarrow> short_range_function this q;
       Some (z / r * srf * exp (- kappa this * r))
     } else Some 0)"

definition dipole_potential :: "object \<Rightarrow> vec3 \<Rightarrow> vec3 \<Rightarrow> real option" where
  "dipole_potential this mu r =
    (let r2 = squaredNorm r in
     if less_x r2 (cutoff2 this) then do {
       let r1 = sqrt r2;
       let q = r1 * invcutoff this;
       srf \<leftarrow> short_range_function this q;
       dsrf \<leftarrow> short_range_function_derivative this q;
       Some (dot mu r / r2 / r1 * (srf * (1 + kappa this * r1) - q * dsrf)
               * exp (- kappa this * r1))
     } else Some 0)"

definition ion_field :: "object \<Rightarrow> real \<Rightarrow> vec3 \<Rightarrow> vec3 option" where
  "ion_field this z r =
    (let r2 = squaredNorm r in
     if less_x r2 (cutoff2 this) then do {
       let r1 = sqrt r2;
       let q = r1 * invcutoff this;
       srf \<leftarrow> short_range_function this q;
       dsrf \<leftarrow> short_range_function_derivative this q;
       Some (scale (exp (- kappa this * r1))
               (scale (srf * (1 + kappa this * r1) - q * dsrf)
                  (shrink (shrink (scale z r) r2) r1)))
     } else Some zero3)"

definition dipole_field :: "object \<Rightarrow> vec3 \<Rightarrow> vec3 \<Rightarrow> vec3 option" where
  "dipole_field this mu r =
    (let r2 = squaredNorm r in
     if less_x r2 (cutoff2 this) then do {
       let r1 = sqrt r2;
       let r3 = r1 * r2;
       let q = r1 * invcutoff this;
       srf \<leftarrow> short_range_function this q;
       dsrf \<leftarrow> short_range_function_derivative this q;
       ddsrf \<leftarrow> short_range_function_second_derivative this q;
       let fieldD = shrink (minus3 (shrink (scale (3 * dot mu r) r) r2) mu) r3;
       let fieldD = scale (srf * (1 + kappa this * r1 + kappa this * kappa this * r2 / 3)
                           - q * dsrf * (1 + 2 / 3 * kappa this * r1) + q * q / 3 * ddsrf) fieldD;
       let fieldI = shrink mu r3;
       let fieldI = scale ((srf * kappa this * kappa this * r2 - 2 * kappa this * r1 * q * dsrf
                            + ddsrf * q * q) / 3) fieldI;
       Some (scale (exp (- kappa this * r1)) (plus3 fieldD fieldI))
     } else Some zero3)"

definition ion_ion_energy :: "object \<Rightarrow> real \<Rightarrow> real \<Rightarrow> real \<Rightarrow> real option" where
  "ion_ion_energy this zA zB r = do {
     p \<leftarrow> ion_potential this zA r;
     Some (zB * p)
   }"

definition ion_dipole_energy :: "object \<Rightarrow> real \<Rightarrow> vec3 \<Rightarrow> vec3 \<Rightarrow> real option" where
  "ion_dipole_energy this z mu r = do {
     p \<leftarrow> dipole_potential this mu (uminus3 r);
     Some (z * p)
   }"

definition dipole_dipole_energy :: "object \<Rightarrow> vec3 \<Rightarrow> vec3 \<Rightarrow> vec3 \<Rightarrow> real option" where
  "dipole_dipole_energy this muA muB r = do {
     E \<leftarrow> dipole_field this muB r;
     Some (- dot muA E)
   }"

definition ion_ion_force :: "object \<Rightarrow> real \<Rightarrow> real \<Rightarrow> vec3 \<Rightarrow> vec3 option" where
  "ion_ion_force this zA zB r = do {
     E \<leftarrow> ion_field this zA r;
     Some (scale zB E)
   }"

definition ion_dipole_force :: "object \<Rightarrow> real \<Rightarrow> vec3 \<Rightarrow> vec3 \<Rightarrow> vec3 option" where
  "ion_dipole_force this z mu r = do {
     E \<leftarrow> dipole_field this mu r;
     Some (scale z E)
   }"

definition dipole_dipole_force :: "object \<Rightarrow> vec3 \<Rightarrow> vec3 \<Rightarrow> vec3 \<Rightarrow> vec3 option" where
  "dipole_dipole_force this muA muB r =
    (let r2 = squaredNorm r in
     if less_x r2 (cutoff2 this) then do {
       let r1 = sqrt r2;
       let rh = shrink r r1;
       let q = r1 * invcutoff this;
       let q2 = q * q;
       let r4 = r2 * r2;
       let muAdotRh = dot muA rh;
       let muBdotRh = dot muB rh;
       let forceD = shrink (scale 3 (minus3 (minus3
                      (scale (5 * muAdotRh * muBdotRh - dot muA muB) rh)
                      (scale muBdotRh muA)) (scale muAdotRh muB))) r4;
       srf \<leftarrow> short_range_function this q;
       dsrf \<leftarrow> short_range_function_derivative this q;
       ddsrf \<leftarrow> short_range_function_second_derivative this q;
       dddsrf \<leftarrow> short_range_function_third_derivative this q;
       let forceD = scale (srf * (1 + kappa this * r1 + kappa this * kappa this * r2 / 3)
                           - q * dsrf * (1 + 2 / 3 * kappa this * r1) + q2 / 3 * ddsrf) forceD;
       let forceI = shrink (scale (muAdotRh * muBdotRh) rh) r4;
       let forceI = scale (srf * (1 + kappa this * r1) * kappa this * kappa this * r2
                           - q * dsrf * (3 * kappa this * r1 + 2) * kappa this * r1
                           + ddsrf * (1 + 3 * kappa this * r1) * q2 - q2 * q * dddsrf) forceI;
       Some (scale (exp (- kappa this * r1)) (plus3 forceD forceI))
     } else Some zero3)"

definition dipole_torque :: "object \<Rightarrow> vec3 \<Rightarrow> vec3 \<Rightarrow> vec3" where
  "dipole_torque this mu E = cross mu E"

text \<open>
  \<^verbatim>\<open>self_energy\<close> takes a \<^verbatim>\<open>std::array<double, 2>\<close>. It throws a \<^verbatim>\<open>std::runtime_error\<close>
  when the sizes differ, and \<^verbatim>\<open>at\<close> throws \<^verbatim>\<open>std::out_of_range\<close>.
\<close>

definition self_energy :: "object \<Rightarrow> array2 \<Rightarrow> failure + real" where
  "self_energy this m2 =
    (if array2_size (self_energy_prefactor this) \<noteq> array2_size m2
     then Inl (runtime_error
       ''Vectors of self energy prefactors and squared moment are not equal in size!'')
     else for_loop 0 (int (array2_size (self_energy_prefactor this)))
       (\<lambda>i e_self.
          case e_self of
            Inl e \<Rightarrow> Inl e
          | Inr e \<Rightarrow>
              (case (array2_at (self_energy_prefactor this) i, array2_at m2 i) of
                 (Some p, Some m) \<Rightarrow>
                   Inr (e + p * m * powi_d (invcutoff this) (word_of_int (2 * i + 1)))
               | _ \<Rightarrow> Inl out_of_range))
       (Inr 0))"

section \<open>The objects the constructors build\<close>

text \<open>The integer arguments of a constructor are values of \<^verbatim>\<open>int\<close>.\<close>

inductive constructed :: "object \<Rightarrow> bool" where
  Plain: "constructed (Plain dl)"
| Ewald: "constructed (Ewald c a eps dl)"
| Wolf: "constructed (Wolf c a)"
| qPotential: "int32 n \<Longrightarrow> constructed (qPotential c n)"
| PoissonSimple: "int32 C_par \<Longrightarrow> int32 D_par \<Longrightarrow> PoissonSimple c C_par D_par = Inr this
    \<Longrightarrow> constructed this"
| Poisson: "int32 C_par \<Longrightarrow> int32 D_par \<Longrightarrow> Poisson c C_par D_par dl = Inr this
    \<Longrightarrow> constructed this"
| Fanourgakis: "constructed (Fanourgakis c)"

section \<open>Notions of the statements\<close>

text \<open>The value \<open>s'(1) - s(1) + s(0)\<close> of the splitting function of an object.\<close>

definition T0_formula :: "object \<Rightarrow> real option" where
  "T0_formula this = do {
     s1 \<leftarrow> short_range_function_derivative this 1;
     s \<leftarrow> short_range_function this 1;
     s0 \<leftarrow> short_range_function this 0;
     Some (s1 - s + s0)
   }"

text \<open>
  The members the constructor of \<^verbatim>\<open>Poisson\<close> computes from its arguments and from the value
  \<open>b\<close> of \<^verbatim>\<open>binomial(C + D, C)\<close>.
\<close>

definition Poisson_members_for :: "real \<Rightarrow> int \<Rightarrow> int \<Rightarrow> xdouble \<Rightarrow> 32 word \<Rightarrow> Poisson_members" where
  "Poisson_members_for c Cp Dp dl b =
    \<lparr>Poisson_members.C = Cp, D = Dp, kappaRed = divide_x c dl,
     kappaRed2 = (if \<bar>divide_x c dl\<bar> > 1 / 1000000 then divide_x c dl * divide_x c dl else 0),
     yukawa_denom = (if \<bar>divide_x c dl\<bar> > 1 / 1000000 then 1 / (1 - exp (2 * divide_x c dl)) else 0),
     binomCDC = real (unat (b * word_of_int Dp)),
     yukawa = (\<bar>divide_x c dl\<bar> > 1 / 1000000)\<rparr>"

text \<open>The statement of the loop of \<^verbatim>\<open>short_range_function\<close> in the Poisson family.\<close>

definition poisson_term :: "int \<Rightarrow> int \<Rightarrow> real \<Rightarrow> int \<Rightarrow> real option \<Rightarrow> real option" where
  "poisson_term Cp Dp q = (\<lambda>c tmp. do {
          tmp \<leftarrow> tmp;
          b \<leftarrow> binomial (word_of_int (Dp - 1 + c)) (word_of_int c);
          Some (tmp + real (unat b) * real_of_int (Cp - c) / real_of_int Cp * powi_d q (word_of_int c))
        })"

section \<open>Loops, powers and unsigned integers\<close>

lemma powi_d_eq: "powi_d x n = x ^ unat n"
proof (induction x n rule: powi_d.induct)
  case (1 x n)
  show ?case
  proof (cases "n > 0")
    case True
    then have "n \<noteq> 0" by auto
    then have "unat n = Suc (unat (n - 1))"
      by (simp add: unat_minus_one unat_gt_0 Suc_pred')
    with True 1 show ?thesis
      by (subst powi_d.simps) simp
  next
    case False
    then have "n = 0" by (simp add: word_gt_0)
    then show ?thesis by (subst powi_d.simps) simp
  qed
qed

lemma unat_word_of_int_32: "0 \<le> i \<Longrightarrow> i < 2 ^ 32 \<Longrightarrow> unat (word_of_int i :: 32 word) = nat i"
  by (simp add: unat_eq_nat_uint uint_word_of_int)

lemma for_loop_stop: "\<not> i < hi \<Longrightarrow> for_loop i hi body s = s"
  by (subst for_loop.simps) simp

lemma for_loop_step: "i < hi \<Longrightarrow> for_loop i hi body s = for_loop (i + 1) hi body (body i s)"
  by (subst for_loop.simps) simp

lemma int_interval_first: "i < hi \<Longrightarrow> {i..<hi} = insert i {i + 1..<hi::int}"
  by auto

lemma for_loop_sum: "for_loop i hi (\<lambda>k acc. acc + f k) (a::real) = a + sum f {i..<hi}"
proof (induction i hi "\<lambda>k (acc::real). acc + f k" a rule: for_loop.induct)
  case (1 i hi a)
  show ?case
  proof (cases "i < hi")
    case True
    with 1 show ?thesis by (simp add: for_loop_step int_interval_first)
  next
    case False
    then show ?thesis by (simp add: for_loop_stop)
  qed
qed

lemma for_loop_prod: "for_loop i hi (\<lambda>k acc. acc * f k) (a::real) = a * prod f {i..<hi}"
proof (induction i hi "\<lambda>k (acc::real). acc * f k" a rule: for_loop.induct)
  case (1 i hi a)
  show ?case
  proof (cases "i < hi")
    case True
    with 1 show ?thesis by (simp add: for_loop_step int_interval_first)
  next
    case False
    then show ?thesis by (simp add: for_loop_stop)
  qed
qed

section \<open>The value of the q-Pochhammer symbol\<close>

lemma geometric_int: "(1 - q) * (\<Sum>k\<in>{1..int m}. q ^ nat (k - 1)) = 1 - (q::real) ^ m"
proof (induction m)
  case 0
  then show ?case by simp
next
  case (Suc m)
  have "{1..int (Suc m)} = insert (int (Suc m)) {1..int m}" by auto
  then have "(\<Sum>k\<in>{1..int (Suc m)}. q ^ nat (k - 1)) = q ^ m + (\<Sum>k\<in>{1..int m}. q ^ nat (k - 1))"
    by simp
  then have "(1 - q) * (\<Sum>k\<in>{1..int (Suc m)}. q ^ nat (k - 1))
             = (1 - q) * q ^ m + (1 - q) * (\<Sum>k\<in>{1..int m}. q ^ nat (k - 1))"
    by (simp only: distrib_left)
  also have "\<dots> = (1 - q) * q ^ m + (1 - q ^ m)"
    by (simp only: Suc)
  also have "\<dots> = 1 - q ^ Suc m"
    by (simp add: algebra_simps)
  finally show ?case .
qed

lemma inner_sum:
  assumes "0 \<le> n + l" "n + l < 2 ^ 31"
  shows "for_loop 1 (n + l + 1) (\<lambda>k val. val + powi_d q (word_of_int (k - 1))) 0
         = (\<Sum>k\<in>{1..n + l}. q ^ nat (k - 1))"
proof -
  have "for_loop 1 (n + l + 1) (\<lambda>k val. val + powi_d q (word_of_int (k - 1))) 0
        = (\<Sum>k\<in>{1..<n + l + 1}. powi_d q (word_of_int (k - 1)))"
    by (simp add: for_loop_sum)
  also have "\<dots> = (\<Sum>k\<in>{1..<n + l + 1}. q ^ nat (k - 1))"
  proof (rule sum.cong)
    fix k assume "k \<in> {1..<n + l + 1}"
    then have "0 \<le> k - 1" "k - 1 < 2 ^ 32" using assms by auto
    then show "powi_d q (word_of_int (k - 1)) = q ^ nat (k - 1)"
      by (simp only: powi_d_eq unat_word_of_int_32)
  qed simp
  also have "{1..<n + l + 1} = {1..n + l}" by auto
  finally show ?thesis .
qed

lemma qPochhammerSymbol_Ct:
  assumes "0 \<le> l" "0 \<le> P" "l + P < 2 ^ 31"
  shows "for_loop 1 (P + 1) (\<lambda>n Ct. Ct * for_loop 1 (n + l + 1) (\<lambda>k val. val + powi_d q (word_of_int (k - 1))) 0) 1
         = (\<Prod>n\<in>{1..P}. \<Sum>k\<in>{1..n + l}. q ^ nat (k - 1))"
proof -
  have "for_loop 1 (P + 1) (\<lambda>n Ct. Ct * for_loop 1 (n + l + 1) (\<lambda>k val. val + powi_d q (word_of_int (k - 1))) 0) 1
        = (\<Prod>n\<in>{1..<P + 1}. for_loop 1 (n + l + 1) (\<lambda>k val. val + powi_d q (word_of_int (k - 1))) 0)"
    by (simp add: for_loop_prod)
  also have "\<dots> = (\<Prod>n\<in>{1..<P + 1}. \<Sum>k\<in>{1..n + l}. q ^ nat (k - 1))"
  proof (rule prod.cong)
    fix n assume "n \<in> {1..<P + 1}"
    then have "0 \<le> n + l" "n + l < 2 ^ 31" using assms by auto
    then show "for_loop 1 (n + l + 1) (\<lambda>k val. val + powi_d q (word_of_int (k - 1))) 0
               = (\<Sum>k\<in>{1..n + l}. q ^ nat (k - 1))"
      by (rule inner_sum)
  qed simp
  also have "{1..<P + 1} = {1..P}" by auto
  finally show ?thesis .
qed

lemma qPochhammerSymbol_reformulated:
  assumes "0 \<le> l" "0 \<le> P" "l + P < 2 ^ 31"
  shows "qPochhammerSymbol q l P
         = (1 - q) ^ nat P * (\<Prod>n\<in>{1..P}. \<Sum>k\<in>{1..n + l}. q ^ nat (k - 1))"
proof -
  have Ct: "for_loop 1 (P + 1) (\<lambda>n Ct. Ct * for_loop 1 (n + l + 1) (\<lambda>k val. val + powi_d q (word_of_int (k - 1))) 0) 1
        = (\<Prod>n\<in>{1..P}. \<Sum>k\<in>{1..n + l}. q ^ nat (k - 1))"
    using assms by (rule qPochhammerSymbol_Ct)
  have "P < 2 ^ 32" using assms by simp
  then have Dt: "powi_d (1 - q) (word_of_int P) = (1 - q) ^ nat P"
    using assms by (simp add: powi_d_eq unat_word_of_int_32)
  show ?thesis
    unfolding qPochhammerSymbol_def Let_def Ct Dt by (rule mult.commute)
qed

lemma reformulated_product:
  assumes "0 \<le> l" "0 \<le> P"
  shows "(1 - q) ^ nat P * (\<Prod>n\<in>{1..P}. \<Sum>k\<in>{1..n + l}. q ^ nat (k - 1))
         = (\<Prod>n\<in>{1..P}. 1 - (q::real) ^ nat (l + 1) * q ^ nat (n - 1))"
proof -
  have "(1 - q) ^ nat P = (\<Prod>n\<in>{1..P}. 1 - q)"
    by simp
  then have "(1 - q) ^ nat P * (\<Prod>n\<in>{1..P}. \<Sum>k\<in>{1..n + l}. q ^ nat (k - 1))
        = (\<Prod>n\<in>{1..P}. (1 - q) * (\<Sum>k\<in>{1..n + l}. q ^ nat (k - 1)))"
    by (simp add: prod.distrib)
  also have "\<dots> = (\<Prod>n\<in>{1..P}. 1 - q ^ nat (l + 1) * q ^ nat (n - 1))"
  proof (rule prod.cong)
    fix n assume n: "n \<in> {1..P}"
    then have "n + l = int (nat (n + l))" using assms by auto
    then have "(1 - q) * (\<Sum>k\<in>{1..n + l}. q ^ nat (k - 1)) = 1 - q ^ nat (n + l)"
      using geometric_int [of q "nat (n + l)"] by simp
    also have "nat (n + l) = nat (l + 1) + nat (n - 1)" using n assms by auto
    finally show "(1 - q) * (\<Sum>k\<in>{1..n + l}. q ^ nat (k - 1)) = 1 - q ^ nat (l + 1) * q ^ nat (n - 1)"
      by (simp add: power_add)
  qed simp
  finally show ?thesis .
qed

lemma coulomb_loop:
  "fst (for_loop i hi (\<lambda>i (value, temp). (value * (1 - temp), temp * q)) (v, t))
   = v * (\<Prod>j\<in>{i..<hi}. 1 - t * (q::real) ^ nat (j - i))"
proof (induction i hi "\<lambda>(i::int) (value, temp). (value * (1 - temp), temp * q)" "(v, t)"
    arbitrary: v t rule: for_loop.induct)
  case (1 i hi)
  show ?case
  proof (cases "i < hi")
    case True
    have "(\<Prod>j\<in>{i + 1..<hi}. 1 - t * q * q ^ nat (j - (i + 1)))
          = (\<Prod>j\<in>{i + 1..<hi}. 1 - t * q ^ nat (j - i))"
    proof (rule prod.cong)
      fix j assume "j \<in> {i + 1..<hi}"
      then have "nat (j - i) = Suc (nat (j - (i + 1)))" by auto
      then show "1 - t * q * q ^ nat (j - (i + 1)) = 1 - t * q ^ nat (j - i)" by simp
    qed simp
    with True 1 show ?thesis by (simp add: for_loop_step int_interval_first)
  next
    case False
    then show ?thesis by (simp add: for_loop_stop)
  qed
qed

lemma coulomb_qPochhammerSymbol_product:
  assumes "0 \<le> k"
  shows "coulomb_qPochhammerSymbol q k P = (\<Prod>n\<in>{1..P}. 1 - q ^ nat k * q ^ nat (n - 1))"
proof -
  have "coulomb_qPochhammerSymbol q k P = (\<Prod>j\<in>{0..<P}. 1 - q ^ nat k * q ^ nat j)"
    using assms by (simp add: coulomb_qPochhammerSymbol_def coulomb_loop power_int_def)
  also have "\<dots> = (\<Prod>n\<in>{1..P}. 1 - q ^ nat k * q ^ nat (n - 1))"
    by (rule prod.reindex_bij_witness [where i = "\<lambda>n. n - 1" and j = "\<lambda>j. j + 1"]) auto
  finally show ?thesis .
qed

lemma interval_1_2: "{1..2::int} = {1, 2}"
  by auto

lemma geometric_sum_lower:
  fixes q :: real
  assumes q: "q = 99 / 100" and n: "1 \<le> n"
  shows "1 \<le> (\<Sum>k\<in>{1..n}. q ^ nat (k - 1))"
    and "70 \<le> n \<Longrightarrow> 50 \<le> (\<Sum>k\<in>{1..n}. q ^ nat (k - 1))"
proof -
  let ?S = "\<Sum>k\<in>{1..n}. q ^ nat (k - 1)"
  have q01: "0 \<le> q" "q \<le> 1" and q1: "q ^ 1 \<le> 99 / 100" and q70: "q ^ 70 \<le> 1 / 2"
    and q': "1 - q = 1 / 100"
    unfolding q by (simp_all add: power_divide)
  have "n = int (nat n)" using n by simp
  then have "(1 - q) * ?S = 1 - q ^ nat n"
    using geometric_int [of q "nat n"] by simp
  then have S: "?S = 100 * (1 - q ^ nat n)"
    unfolding q' by simp
  have "q ^ nat n \<le> q ^ 1"
    using n q01 by (intro power_decreasing) simp_all
  with q1 have "q ^ nat n \<le> 99 / 100" by (rule order_trans [rotated])
  then have "1 \<le> 100 * (1 - q ^ nat n)" by simp
  then show "1 \<le> ?S" by (simp only: S)
  assume "70 \<le> n"
  then have "q ^ nat n \<le> q ^ 70"
    using q01 by (intro power_decreasing) simp_all
  with q70 have "q ^ nat n \<le> 1 / 2" by (rule order_trans [rotated])
  then have "50 \<le> 100 * (1 - q ^ nat n)" by simp
  then show "50 \<le> ?S" by (simp only: S)
qed

text \<open>
  The two intermediate values of \<^verbatim>\<open>qPochhammerSymbol\<close> at its default order \<open>P = 300\<close>, for
  \<open>q = 0.99\<close> and \<open>l = 0\<close>: the product \<^verbatim>\<open>Ct\<close> of the sums is above \<open>2^1024\<close> and the power
  \<^verbatim>\<open>Dt\<close> is below \<open>2^(-1075)\<close>. Every finite binary64 number is below \<open>2^1024\<close> and the smallest
  positive one is \<open>2^(-1074)\<close>, so neither value is one that a \<^verbatim>\<open>double\<close> holds: what is proved
  of \<^verbatim>\<open>Ct * Dt\<close> is proved of the product of real numbers.
\<close>

lemma qPochhammerSymbol_intermediates_at_order_300:
  fixes q :: real and l P :: int
  assumes q: "q = 99 / 100" and l: "l = 0" and P: "P = 300"
  shows "2 ^ 1024 < for_loop 1 (P + 1) (\<lambda>n Ct. Ct * for_loop 1 (n + l + 1) (\<lambda>k val. val + powi_d q (word_of_int (k - 1))) 0) 1"
    and "powi_d (1 - q) (word_of_int P) < 1 / 2 ^ 1075"
proof -
  let ?g = "\<lambda>n::int. if n < 70 then 1 else (50::real)"
  have "for_loop 1 (P + 1) (\<lambda>n Ct. Ct * for_loop 1 (n + l + 1) (\<lambda>k val. val + powi_d q (word_of_int (k - 1))) 0) 1
        = (\<Prod>n\<in>{1..P}. \<Sum>k\<in>{1..n + l}. q ^ nat (k - 1))"
    using l P by (intro qPochhammerSymbol_Ct) simp_all
  also have "\<dots> = (\<Prod>n\<in>{1..300}. \<Sum>k\<in>{1..n}. q ^ nat (k - 1))"
    using l P by simp
  finally have Ct: "for_loop 1 (P + 1) (\<lambda>n Ct. Ct * for_loop 1 (n + l + 1) (\<lambda>k val. val + powi_d q (word_of_int (k - 1))) 0) 1
        = (\<Prod>n\<in>{1..300}. \<Sum>k\<in>{1..n}. q ^ nat (k - 1))" .
  have "{1..300::int} = {1..69} \<union> {70..300}" "{1..69::int} \<inter> {70..300} = {}"
    by auto
  then have "(\<Prod>n\<in>{1..300::int}. ?g n) = (\<Prod>n\<in>{1..69}. ?g n) * (\<Prod>n\<in>{70..300}. ?g n)"
    by (simp only: prod.union_disjoint [OF finite_atLeastAtMost_int finite_atLeastAtMost_int])
  also have "(\<Prod>n\<in>{1..69::int}. ?g n) = 1"
    by (rule prod.neutral) simp
  also have "(\<Prod>n\<in>{70..300::int}. ?g n) = (\<Prod>n\<in>{70..300::int}. 50)"
    by (rule prod.cong) simp_all
  also have "\<dots> = 50 ^ card {70..300::int}"
    by (rule prod_constant)
  also have "card {70..300::int} = 231"
    by simp
  finally have g: "(\<Prod>n\<in>{1..300::int}. ?g n) = 50 ^ 231"
    by simp
  have "(2::real) ^ 1024 \<le> 2 ^ (5 * 231)"
    by (rule power_increasing) simp_all
  also have "\<dots> = (2 ^ 5) ^ 231"
    by (rule power_mult)
  also have "\<dots> < 50 ^ 231"
    by (rule power_strict_mono) simp_all
  also have "\<dots> \<le> (\<Prod>n\<in>{1..300}. \<Sum>k\<in>{1..n}. q ^ nat (k - 1))"
    unfolding g [symmetric]
  proof (rule prod_mono)
    fix n :: int assume "n \<in> {1..300}"
    then have "1 \<le> n" by simp
    then show "0 \<le> ?g n \<and> ?g n \<le> (\<Sum>k\<in>{1..n}. q ^ nat (k - 1))"
      using geometric_sum_lower [OF q] by (cases "n < 70") simp_all
  qed
  finally show "2 ^ 1024 < for_loop 1 (P + 1) (\<lambda>n Ct. Ct * for_loop 1 (n + l + 1) (\<lambda>k val. val + powi_d q (word_of_int (k - 1))) 0) 1"
    by (simp only: Ct)
  have "unat (word_of_int 300 :: 32 word) = 300"
    by simp
  moreover have "1 - q = 1 / 100"
    unfolding q by simp
  ultimately have "powi_d (1 - q) (word_of_int P) = (1 / 100) ^ 300"
    unfolding P by (simp only: powi_d_eq)
  also have "\<dots> < (1 / 2 ^ 4) ^ 300"
    by (rule power_strict_mono) simp_all
  also have "\<dots> = (1 / 2) ^ (4 * 300)"
    by (simp only: power_one_over power_mult)
  also have "\<dots> \<le> (1 / 2) ^ 1075"
    by (rule power_decreasing) simp_all
  finally show "powi_d (1 - q) (word_of_int P) < 1 / 2 ^ 1075"
    by (simp only: power_one_over)
qed

text \<open>
  Claim C5, as stated: \<^verbatim>\<open>qPochhammerSymbol(q, l, P)\<close> is the product of \<open>1 - q^l * q^(n-1)\<close>
  for \<open>n = 1, \<dots>, P\<close>. It is not: for \<open>q = 1/2\<close>, \<open>l = 0\<close>, \<open>P = 1\<close> that product is \<open>0\<close>,
  the function returns \<open>1/2\<close>.
\<close>

theorem qPochhammerSymbol_is_not_the_level_l_product:
  "qPochhammerSymbol (1 / 2) 0 1 = 1 / 2
   \<and> (\<Prod>n\<in>{1..1::int}. 1 - (1 / 2 :: real) ^ nat 0 * (1 / 2) ^ nat (n - 1)) = 0
   \<and> qPochhammerSymbol (1 / 2) 0 1 \<noteq> (\<Prod>n\<in>{1..1::int}. 1 - (1 / 2) ^ nat 0 * (1 / 2) ^ nat (n - 1))"
  by (simp add: qPochhammerSymbol_def for_loop.simps powi_d_eq)

text \<open>
  Claim C5, amended: over the reals, for every \<open>q\<close>, every level \<open>l \<ge> 0\<close> and every order
  \<open>P \<ge> 0\<close> with \<open>l + P < 2^31 - 1\<close> (the loop bounds \<open>P + 1\<close> and \<open>n + l + 1\<close> are computed in
  \<^verbatim>\<open>int\<close> and reach \<open>l + P + 1\<close>), \<^verbatim>\<open>qPochhammerSymbol(q, l, P)\<close> is the product of
  \<open>1 - q^(l+1) * q^(n-1)\<close> for \<open>n = 1, \<dots>, P\<close>; this is the reformulated form \<open>(1-q)^P\<close> times the
  product over \<open>n\<close> of the sums of \<open>q^(k-1)\<close> for \<open>k = 1, \<dots>, n+l\<close>, which the implementation
  computes; the older implementation of \<^verbatim>\<open>src/coulomb.h\<close> computes the product of
  \<open>1 - q^k * q^(n-1)\<close> for its level \<open>k\<close>, so it agrees at \<open>k = l + 1\<close>.
\<close>

theorem qPochhammerSymbol_value:
  assumes "0 \<le> l" and "0 \<le> P" and "l + P < 2 ^ 31 - 1"
  shows "qPochhammerSymbol q l P = (\<Prod>n\<in>{1..P}. 1 - q ^ nat (l + 1) * q ^ nat (n - 1))
    \<and> qPochhammerSymbol q l P
        = (1 - q) ^ nat P * (\<Prod>n\<in>{1..P}. \<Sum>k\<in>{1..n + l}. q ^ nat (k - 1))
    \<and> coulomb_qPochhammerSymbol q l P = (\<Prod>n\<in>{1..P}. 1 - q ^ nat l * q ^ nat (n - 1))
    \<and> coulomb_qPochhammerSymbol q (l + 1) P = qPochhammerSymbol q l P"
proof -
  have a: "qPochhammerSymbol q l P
        = (1 - q) ^ nat P * (\<Prod>n\<in>{1..P}. \<Sum>k\<in>{1..n + l}. q ^ nat (k - 1))"
    using assms by (intro qPochhammerSymbol_reformulated) simp_all
  have b: "qPochhammerSymbol q l P = (\<Prod>n\<in>{1..P}. 1 - q ^ nat (l + 1) * q ^ nat (n - 1))"
    using a reformulated_product [OF assms(1,2)] by simp
  have c: "coulomb_qPochhammerSymbol q l P = (\<Prod>n\<in>{1..P}. 1 - q ^ nat l * q ^ nat (n - 1))"
    using assms(1) by (rule coulomb_qPochhammerSymbol_product)
  have "0 \<le> l + 1" using assms(1) by simp
  then have d: "coulomb_qPochhammerSymbol q (l + 1) P
        = (\<Prod>n\<in>{1..P}. 1 - q ^ nat (l + 1) * q ^ nat (n - 1))"
    by (rule coulomb_qPochhammerSymbol_product)
  from a b c d show ?thesis by simp
qed

theorem qPochhammerSymbol_value_witness:
  "(0::int) \<le> 0 \<and> (0::int) \<le> 2 \<and> (0::int) + 2 < 2 ^ 31 - 1
   \<and> qPochhammerSymbol (3 / 4) 0 2 = 7 / 64
   \<and> coulomb_qPochhammerSymbol (3 / 4) 1 2 = 7 / 64"
  using qPochhammerSymbol_value [of 0 2 "3 / 4"]
  by (simp add: interval_1_2 power2_eq_square)

section \<open>What the constructors store\<close>

lemmas ctor_defs = EnergyImplementation_def SchemeBase_def SchemeBase.extend_def
  EnergyImplementation.extend_def EnergyImplementation.fields_def object.fields_def Let_def

lemma Plain_base:
  "cutoff (Plain dl) = Infinity" "cutoff2 (Plain dl) = Infinity" "invcutoff (Plain dl) = 0"
  "kappa (Plain dl) = inverse_x dl" "derived (Plain dl) = D_Plain" "scheme (Plain dl) = plain"
  "name (Plain dl) = ''plain''" "self_energy_prefactor (Plain dl) = Array2 0 0"
  by (simp_all add: Plain_def ctor_defs)

lemma Ewald_base:
  "cutoff (Ewald c a eps dl) = Finite c" "cutoff2 (Ewald c a eps dl) = Finite (c * c)"
  "invcutoff (Ewald c a eps dl) = 1 / c" "kappa (Ewald c a eps dl) = 0"
  "scheme (Ewald c a eps dl) = ewald" "name (Ewald c a eps dl) = ''Ewald real-space''"
  by (simp_all add: Ewald_def ctor_defs)

lemma Wolf_base:
  "cutoff (Wolf c a) = Finite c" "cutoff2 (Wolf c a) = Finite (c * c)"
  "invcutoff (Wolf c a) = 1 / c" "kappa (Wolf c a) = 0"
  "scheme (Wolf c a) = wolf" "name (Wolf c a) = ''Wolf''"
  "derived (Wolf c a) = D_Wolf \<lparr>Wolf_members.alpha = a, alphaRed = a * c,
     alphaRed2 = a * c * (a * c), pi_sqrt = 2 * sqrt (arctan 1)\<rparr>"
  by (simp_all add: Wolf_def ctor_defs)

lemma qPotential_base:
  "cutoff (qPotential c n) = Finite c" "cutoff2 (qPotential c n) = Finite (c * c)"
  "invcutoff (qPotential c n) = 1 / c" "kappa (qPotential c n) = 0"
  "scheme (qPotential c n) = qpotential" "name (qPotential c n) = ''qpotential''"
  "derived (qPotential c n) = D_qPotential \<lparr>order = n\<rparr>"
  "self_energy_prefactor (qPotential c n) = Array2 (- 1) (- 1)"
  by (simp_all add: qPotential_def ctor_defs)

lemma Fanourgakis_base:
  "cutoff (Fanourgakis c) = Finite c" "cutoff2 (Fanourgakis c) = Finite (c * c)"
  "invcutoff (Fanourgakis c) = 1 / c" "kappa (Fanourgakis c) = 0"
  "scheme (Fanourgakis c) = qpotential" "name (Fanourgakis c) = ''fanourgakis''"
  "derived (Fanourgakis c) = D_Fanourgakis"
  by (simp_all add: Fanourgakis_def ctor_defs)

lemma PoissonSimple_base:
  assumes "PoissonSimple c C_par D_par = Inr this"
  shows "cutoff this = Finite c" "cutoff2 this = Finite (c * c)"
    "invcutoff this = 1 / c" "kappa this = 0"
    "scheme this = poisson" "name this = ''poisson''"
    "derived this = D_PoissonSimple \<lparr>PoissonSimple_members.C = C_par, D = D_par\<rparr>"
    "1 \<le> C_par" "- 1 \<le> D_par"
  using assms
  by (auto simp add: PoissonSimple_def ctor_defs split: if_splits option.splits)

lemma Poisson_base:
  assumes "Poisson c C_par D_par dl = Inr this"
  shows "cutoff this = Finite c" "cutoff2 this = Finite (c * c)"
    "invcutoff this = 1 / c" "kappa this = inverse_x dl"
    "scheme this = poisson" "name this = ''poisson''"
    "1 \<le> C_par" "- 1 \<le> D_par"
  using assms
  by (auto simp add: Poisson_def ctor_defs split: if_splits option.splits)

lemma constructed_cutoff2: "constructed this \<Longrightarrow> cutoff2 this = square_x (cutoff this)"
  by (induction rule: constructed.induct)
     (simp_all add: Plain_base Ewald_base Wolf_base qPotential_base Fanourgakis_base
        PoissonSimple_base Poisson_base)

lemma constructed_invcutoff: "constructed this \<Longrightarrow> invcutoff this = inverse_x (cutoff this)"
  by (induction rule: constructed.induct)
     (simp_all add: Plain_base Ewald_base Wolf_base qPotential_base Fanourgakis_base
        PoissonSimple_base Poisson_base)

section \<open>Evaluation on numerals\<close>

lemma for_loop_numeral [simp]:
  "for_loop (numeral a) (numeral b) body s =
     (if (numeral a :: int) < numeral b then for_loop (numeral a + 1) (numeral b) body (body (numeral a) s) else s)"
  "for_loop 0 (numeral b) body s = for_loop 1 (numeral b) body (body 0 s)"
  "for_loop 1 (numeral b) body s =
     (if (1 :: int) < numeral b then for_loop 2 (numeral b) body (body 1 s) else s)"
  "for_loop 0 1 body s = body 0 s"
  "for_loop 1 1 body s = s"
  by (subst for_loop.simps, simp)+

lemma word_le_numeral_1 [simp]: "(numeral a :: 32 word) \<le> 1 \<longleftrightarrow> unat (numeral a :: 32 word) \<le> 1"
  by (simp add: word_le_nat_alt)

lemma factorial_small [simp]:
  "factorial 0 = 1" "factorial 1 = 1" "factorial 2 = 2" "factorial 3 = 6" "factorial 4 = 24"
  "factorial 5 = 120" "factorial 6 = 720" "factorial 7 = 5040"
  by (simp_all add: factorial.simps)

lemma PoissonSimple_3_3: "\<exists>this. PoissonSimple 29 3 3 = Inr this"
  by (simp add: PoissonSimple_def Let_def PoissonSimple_short_range_function_def
      PoissonSimple_short_range_function_derivative_def binomial_def divide_u_def powi_d_eq)

lemma Poisson_3_3: "\<exists>this. Poisson 29 3 3 (Finite 23) = Inr this"
  by (simp add: Poisson_def Let_def Poisson_short_range_function_def
      Poisson_short_range_function_derivative_def binomial_def divide_u_def powi_d_eq)

section \<open>The truncation at the cutoff\<close>

lemma squaredNorm_nonneg: "0 \<le> squaredNorm v"
  by (cases v) (simp add: squaredNorm_def)

lemma squaredNorm_uminus3: "squaredNorm (uminus3 v) = squaredNorm v"
  by (cases v) (simp add: squaredNorm_def)

lemma scale_zero3: "scale s zero3 = zero3"
  by (simp add: zero3_def)

lemma dot_zero3: "dot v zero3 = 0"
  by (cases v) (simp add: zero3_def)

lemma beyond_cutoff2:
  assumes "nonnegative_x c" and "reaches (norm3 v) c"
  shows "\<not> less_x (squaredNorm v) (square_x c)"
proof (cases c)
  case (Finite x)
  with assms have x: "0 \<le> x" "x \<le> sqrt (squaredNorm v)"
    by (simp_all add: norm3_def)
  then have "x * x \<le> sqrt (squaredNorm v) * sqrt (squaredNorm v)"
    by (intro mult_mono) (auto simp: squaredNorm_nonneg)
  then have "x * x \<le> squaredNorm v"
    by (simp add: squaredNorm_nonneg)
  with Finite show ?thesis by simp
next
  case Infinity
  with assms show ?thesis by simp
qed

lemma beyond_cutoff: "reaches r c \<Longrightarrow> \<not> less_x r c"
  by (cases c) simp_all

lemma dot_field_parts:
  "dot mu (scale e (scale b (shrink (shrink (scale z r) r2) r1))) = z * (dot mu r / r2 / r1 * b * e)"
  by (cases mu; cases r) (simp add: algebra_simps add_divide_distrib)

lemma zero_beyond:
  assumes "constructed this" and "nonnegative_x (cutoff this)"
    and r: "reaches r (cutoff this)" and rv: "reaches (norm3 rv) (cutoff this)"
  shows "ion_potential this z r = Some 0"
    and "dipole_potential this mu rv = Some 0"
    and "ion_field this z rv = Some zero3"
    and "dipole_field this mu rv = Some zero3"
    and "ion_ion_energy this zA zB r = Some 0"
    and "ion_dipole_energy this z mu rv = Some 0"
    and "dipole_dipole_energy this muA muB rv = Some 0"
    and "ion_ion_force this zA zB rv = Some zero3"
    and "ion_dipole_force this z mu rv = Some zero3"
    and "dipole_dipole_force this muA muB rv = Some zero3"
proof -
  have s: "\<not> less_x r (cutoff this)"
    using r by (rule beyond_cutoff)
  have v: "\<not> less_x (squaredNorm rv) (cutoff2 this)"
    using beyond_cutoff2 [OF assms(2) rv] constructed_cutoff2 [OF assms(1)] by simp
  show p: "ion_potential this z r = Some 0" for z
    using s by (simp add: ion_potential_def)
  show dp: "dipole_potential this mu rv = Some 0"
    using v by (simp add: dipole_potential_def Let_def)
  show f: "ion_field this z rv = Some zero3" for z
    using v by (simp add: ion_field_def Let_def)
  show df: "dipole_field this mu rv = Some zero3" for mu
    using v by (simp add: dipole_field_def Let_def)
  show "ion_ion_energy this zA zB r = Some 0"
    by (simp add: ion_ion_energy_def p)
  show "ion_dipole_energy this z mu rv = Some 0"
    using v by (simp add: ion_dipole_energy_def dipole_potential_def Let_def squaredNorm_uminus3)
  show "dipole_dipole_energy this muA muB rv = Some 0"
    by (simp add: dipole_dipole_energy_def df dot_zero3)
  show "ion_ion_force this zA zB rv = Some zero3"
    by (simp add: ion_ion_force_def f scale_zero3)
  show "ion_dipole_force this z mu rv = Some zero3"
    by (simp add: ion_dipole_force_def df scale_zero3)
  show "dipole_dipole_force this muA muB rv = Some zero3"
    using v by (simp add: dipole_dipole_force_def Let_def)
qed

text \<open>
  Claim C1: for every scheme variant and every separation that has reached the cutoff, each
  of the ten distance-dependent operations returns exactly zero, the zero vector for the
  vector-valued ones. The scalar operations take the separation \<open>r\<close>, the vector ones the
  separation vector \<open>rv\<close>, whose length is compared through its square with the square of
  the cutoff; the cutoff is not negative (the data model has it positive, and unbounded for
  \<^verbatim>\<open>Plain\<close>, which no separation reaches).
\<close>

theorem zero_beyond_cutoff:
  assumes "constructed this" and "nonnegative_x (cutoff this)"
    and "reaches r (cutoff this)" and "reaches (norm3 rv) (cutoff this)"
  shows "ion_potential this z r = Some 0
    \<and> dipole_potential this mu rv = Some 0
    \<and> ion_field this z rv = Some zero3
    \<and> dipole_field this mu rv = Some zero3
    \<and> ion_ion_energy this zA zB r = Some 0
    \<and> ion_dipole_energy this z mu rv = Some 0
    \<and> dipole_dipole_energy this muA muB rv = Some 0
    \<and> ion_ion_force this zA zB rv = Some zero3
    \<and> ion_dipole_force this z mu rv = Some zero3
    \<and> dipole_dipole_force this muA muB rv = Some zero3"
  using zero_beyond [OF assms] by simp

theorem zero_beyond_cutoff_witness:
  "constructed (Fanourgakis 29) \<and> nonnegative_x (cutoff (Fanourgakis 29))
   \<and> reaches 29 (cutoff (Fanourgakis 29))
   \<and> reaches (norm3 (Vec3 29 0 0)) (cutoff (Fanourgakis 29))
   \<and> ion_potential (Fanourgakis 29) 2 29 = Some 0
   \<and> dipole_potential (Fanourgakis 29) (Vec3 19 7 11) (Vec3 29 0 0) = Some 0
   \<and> ion_field (Fanourgakis 29) 2 (Vec3 29 0 0) = Some zero3
   \<and> dipole_dipole_force (Fanourgakis 29) (Vec3 19 7 11) (Vec3 13 17 5) (Vec3 29 0 0) = Some zero3"
proof -
  have 1: "constructed (Fanourgakis 29)"
    by (rule constructed.Fanourgakis)
  have 2: "nonnegative_x (cutoff (Fanourgakis 29))"
    by (simp add: Fanourgakis_base)
  have 3: "reaches 29 (cutoff (Fanourgakis 29))"
    by (simp add: Fanourgakis_base)
  have 4: "reaches (norm3 (Vec3 29 0 0)) (cutoff (Fanourgakis 29))"
    by (simp add: Fanourgakis_base norm3_def squaredNorm_def)
  show ?thesis
    using 1 2 3 4
      zero_beyond_cutoff [OF 1 2 3 4, of 2 "Vec3 19 7 11" 2 3 "Vec3 19 7 11" "Vec3 13 17 5"]
    by simp
qed

section \<open>Self energy\<close>

lemma self_energy_eval:
  "self_energy this (Array2 m0 m1) =
     (case self_energy_prefactor this of Array2 p0 p1 \<Rightarrow>
        Inr (p0 * m0 * invcutoff this ^ 1 + p1 * m1 * invcutoff this ^ 3))"
  by (cases "self_energy_prefactor this")
     (simp add: self_energy_def array2_size_def powi_d_eq for_loop.simps [of 2 2] for_loop.simps [of 1 2])

text \<open>
  Claim C7, as stated: \<^verbatim>\<open>self_energy\<close> fails when the length of the moments differs from
  that of the prefactor pair, in particular for three moments. The parameter is a
  \<^verbatim>\<open>std::array<double, 2>\<close>: there are no three moments to pass, and no argument on which
  the function fails.
\<close>

theorem self_energy_has_no_failing_moments:
  "\<not> (\<exists>m2. array2_size m2 = 3)
   \<and> \<not> (\<exists>m2 e. self_energy (qPotential 29 4) m2 = Inl e)"
proof -
  have "self_energy (qPotential 29 4) m2 \<noteq> Inl e" for m2 e
    by (cases m2) (simp add: self_energy_eval qPotential_base)
  then show ?thesis
    by (simp add: array2_size_def)
qed

text \<open>
  Claim C7, amended: for every constructed scheme, \<^verbatim>\<open>self_energy\<close> takes an array of exactly
  two moments and returns the sum of \<open>prefactor i * moments i * (1 / cutoff) ^ (2 i + 1)\<close>
  for \<open>i = 0, 1\<close>; the two sizes are always equal, and the function fails on no argument.
\<close>

theorem self_energy_value:
  assumes "constructed this" and "self_energy_prefactor this = Array2 p0 p1"
  shows "self_energy this (Array2 m0 m1)
         = Inr (p0 * m0 * inverse_x (cutoff this) ^ (2 * 0 + 1)
                + p1 * m1 * inverse_x (cutoff this) ^ (2 * 1 + 1))
    \<and> (\<forall>m2. array2_size m2 = array2_size (self_energy_prefactor this))
    \<and> (\<forall>m2 e. self_energy this m2 \<noteq> Inl e)"
proof -
  have "self_energy this m2 \<noteq> Inl e" for m2 e
    by (cases m2; cases "self_energy_prefactor this") (simp add: self_energy_eval)
  then show ?thesis
    using assms by (simp add: self_energy_eval constructed_invcutoff array2_size_def)
qed

theorem self_energy_value_witness:
  "constructed (qPotential 2 4) \<and> self_energy_prefactor (qPotential 2 4) = Array2 (- 1) (- 1)
   \<and> self_energy (qPotential 2 4) (Array2 4 8) = Inr (- 3)"
proof -
  have 1: "constructed (qPotential 2 4)"
    by (rule constructed.qPotential) (simp add: int32_def)
  have 2: "self_energy_prefactor (qPotential 2 4) = Array2 (- 1) (- 1)"
    by (simp add: qPotential_base)
  show ?thesis
    using 1 2 self_energy_value [OF 1 2, of 4 8]
    by (simp add: qPotential_base power3_eq_cube)
qed

section \<open>The stored scheme tag\<close>

text \<open>
  Claim C10: an object constructed as \<^verbatim>\<open>Fanourgakis\<close> stores the tag \<^verbatim>\<open>Scheme::qpotential\<close>,
  as a \<^verbatim>\<open>qPotential\<close> object does, and an object constructed as \<^verbatim>\<open>PoissonSimple\<close> stores the
  tag \<^verbatim>\<open>Scheme::poisson\<close> and the name \<^verbatim>\<open>"poisson"\<close>, as a \<^verbatim>\<open>Poisson\<close> object does: the stored
  tag does not tell them apart.
\<close>

theorem stored_scheme_tags:
  "scheme (Fanourgakis c1) = qpotential \<and> scheme (qPotential c2 n) = qpotential
   \<and> (PoissonSimple c3 C3 D3 = Inr this
        \<longrightarrow> scheme this = poisson \<and> name this = ''poisson'')
   \<and> (Poisson c4 C4 D4 dl = Inr that
        \<longrightarrow> scheme that = poisson \<and> name that = ''poisson'')"
  by (simp add: Fanourgakis_base qPotential_base PoissonSimple_base Poisson_base)

theorem stored_scheme_tags_witness:
  "\<exists>this that. PoissonSimple 29 3 3 = Inr this \<and> Poisson 29 3 3 (Finite 23) = Inr that
     \<and> scheme (Fanourgakis 29) = scheme (qPotential 29 4)
     \<and> scheme this = scheme that \<and> name this = name that"
proof -
  obtain this where 1: "PoissonSimple 29 3 3 = Inr this"
    using PoissonSimple_3_3 by blast
  obtain that where 2: "Poisson 29 3 3 (Finite 23) = Inr that"
    using Poisson_3_3 by blast
  show ?thesis
    using 1 2 stored_scheme_tags [of 29 29 4 29 3 3 this 29 3 3 "Finite 23" that]
    by simp
qed

section \<open>The error function\<close>

lemma erf_summable:
  "summable (\<lambda>n. (- 1) ^ n * x ^ (2 * n + 1) / (fact n * real (2 * n + 1)) :: real)"
proof (rule summable_comparison_test' [where N = 0])
  show "summable (\<lambda>n. \<bar>x\<bar> * (inverse (fact n) * (x * x) ^ n))"
    by (rule summable_mult) (rule summable_exp)
next
  fix n :: nat
  have p: "x ^ (2 * n + 1) = x * (x * x) ^ n"
    by (simp add: power_mult power2_eq_square)
  have nn: "0 \<le> (x * x) ^ n"
    by (rule zero_le_power) simp
  have "norm ((- 1) ^ n * x ^ (2 * n + 1) / (fact n * real (2 * n + 1)))
        = \<bar>x * (x * x) ^ n\<bar> / (fact n * real (2 * n + 1))"
    by (simp only: p) (simp add: abs_mult power_abs)
  also have "\<dots> = \<bar>x\<bar> * (x * x) ^ n / (fact n * real (2 * n + 1))"
    using nn by (simp only: abs_mult abs_of_nonneg)
  also have "\<dots> \<le> \<bar>x\<bar> * (x * x) ^ n / (fact n * 1)"
    using nn by (intro divide_left_mono mult_left_mono mult_nonneg_nonneg) auto
  finally show "norm ((- 1) ^ n * x ^ (2 * n + 1) / (fact n * real (2 * n + 1)))
        \<le> \<bar>x\<bar> * (inverse (fact n) * (x * x) ^ n)"
    by (simp add: field_simps)
qed

lemma erf_0: "erf 0 = 0"
  by (simp add: erf_def)

lemma erf_minus: "erf (- x) = - erf x"
proof -
  have "(\<Sum>n. (- 1) ^ n * (- x) ^ (2 * n + 1) / (fact n * real (2 * n + 1)))
        = (\<Sum>n. - ((- 1) ^ n * x ^ (2 * n + 1) / (fact n * real (2 * n + 1))))"
    by (rule arg_cong [where f = suminf]) (simp add: fun_eq_iff)
  also have "\<dots> = - (\<Sum>n. (- 1) ^ n * x ^ (2 * n + 1) / (fact n * real (2 * n + 1)))"
    by (rule suminf_minus) (rule erf_summable)
  finally show ?thesis
    by (simp add: erf_def)
qed

lemma erfc_0: "erfc 0 = 1"
  by (simp add: erfc_def erf_0)

lemma erfc_minus: "erfc (- x) = 2 - erfc x"
  by (simp add: erfc_def erf_minus)

section \<open>The splitting functions at zero, and \<^verbatim>\<open>T0\<close>\<close>

lemma word_div_same: "w \<noteq> 0 \<Longrightarrow> w div w = (1 :: 32 word)"
proof -
  assume "w \<noteq> 0"
  then have "unat (w div w) = unat (1 :: 32 word)"
    by (simp add: unat_div unat_gt_0)
  then show ?thesis
    by (simp only: word_unat_eq_iff)
qed

lemma binomial_0:
  "binomial n 0 = (if factorial n = 0 then None else Some 1)"
  by (simp add: binomial_def divide_u_def factorial.simps [of 0] word_div_same)

lemma for_loop_None:
  "(\<And>k. body k None = None) \<Longrightarrow> for_loop i hi body None = None"
proof (induction i hi body "None :: 'a option" rule: for_loop.induct)
  case (1 i hi body)
  show ?case
  proof (cases "i < hi")
    case True
    with 1 show ?thesis by (simp add: for_loop_step)
  next
    case False
    then show ?thesis by (simp add: for_loop_stop)
  qed
qed

lemma poisson_term_0_tail:
  assumes "1 \<le> k" and "hi \<le> 2 ^ 31"
    and "for_loop k hi (poisson_term Cp Dp 0) (Some a) = Some v"
  shows "v = a"
  using assms
proof (induction k hi "poisson_term Cp Dp 0" "Some a" arbitrary: a rule: for_loop.induct)
  case (1 i hi)
  show ?case
  proof (cases "i < hi")
    case True
    then have "0 \<le> i" "i < 2 ^ 32" using 1 by auto
    then have u: "unat (word_of_int i :: 32 word) = nat i"
      by (rule unat_word_of_int_32)
    have "0 < nat i" using 1 by auto
    then have z: "powi_d 0 (word_of_int i) = 0"
      by (simp only: powi_d_eq u) simp
    show ?thesis
    proof (cases "binomial (word_of_int (Dp - 1 + i)) (word_of_int i)")
      case None
      then have "poisson_term Cp Dp 0 i (Some a) = None"
        by (simp add: poisson_term_def)
      moreover have "for_loop (i + 1) hi (poisson_term Cp Dp 0) None = None"
        by (rule for_loop_None) (simp add: poisson_term_def)
      ultimately show ?thesis
        using True 1 by (simp add: for_loop_step)
    next
      case (Some b)
      then have "poisson_term Cp Dp 0 i (Some a) = Some a"
        by (simp add: poisson_term_def z)
      then show ?thesis
        using True 1 by (simp add: for_loop_step)
    qed
  next
    case False
    with 1 show ?thesis by (simp add: for_loop_stop)
  qed
qed

lemma poisson_term_0:
  assumes "1 \<le> Cp" and "Cp < 2 ^ 31"
    and "for_loop 0 Cp (poisson_term Cp Dp 0) (Some 0) = Some v"
  shows "v = 1"
proof -
  have step: "for_loop 0 Cp (poisson_term Cp Dp 0) (Some 0)
        = for_loop 1 Cp (poisson_term Cp Dp 0) (poisson_term Cp Dp 0 0 (Some 0))"
    using assms(1) for_loop_step [of 0 Cp] by simp
  have first: "poisson_term Cp Dp 0 0 (Some 0)
        = (if factorial (word_of_int (Dp - 1)) = 0 then None else Some 1)"
    using assms(1) by (simp add: poisson_term_def binomial_0 powi_d_eq)
  show ?thesis
  proof (cases "factorial (word_of_int (Dp - 1)) = 0")
    case True
    have "for_loop 1 Cp (poisson_term Cp Dp 0) None = None"
      by (rule for_loop_None) (simp add: poisson_term_def)
    with True step first assms(3) show ?thesis by simp
  next
    case False
    with step first assms(3) have "for_loop 1 Cp (poisson_term Cp Dp 0) (Some 1) = Some v"
      by simp
    then show ?thesis
      using poisson_term_0_tail [of 1 Cp Cp Dp 1 v] assms(2) by simp
  qed
qed

lemma PoissonSimple_short_range_function_0:
  assumes "1 \<le> PoissonSimple_members.C m" and "PoissonSimple_members.C m < 2 ^ 31"
    and "PoissonSimple_short_range_function m 0 = Some v"
  shows "v = 1"
proof -
  from assms(3) obtain tmp where
    t: "for_loop 0 (PoissonSimple_members.C m)
          (poisson_term (PoissonSimple_members.C m) (PoissonSimple_members.D m) 0) (Some 0) = Some tmp"
    and v: "v = powi_d 1 (word_of_int (PoissonSimple_members.D m + 1)) * tmp"
    by (auto simp add: PoissonSimple_short_range_function_def poisson_term_def
        split: Option.bind_splits)
  from poisson_term_0 [OF assms(1,2) t] v show ?thesis
    by (simp add: powi_d_eq)
qed

lemma Poisson_short_range_function_0:
  assumes "1 \<le> Poisson_members.C m" and "Poisson_members.C m < 2 ^ 31"
    and "Poisson_short_range_function m 0 = Some v"
  shows "v = 1"
proof -
  from assms(3) obtain tmp where
    t: "for_loop 0 (Poisson_members.C m)
          (poisson_term (Poisson_members.C m) (Poisson_members.D m) 0) (Some 0) = Some tmp"
    and v: "v = powi_d 1 (word_of_int (Poisson_members.D m + 1)) * tmp"
    by (auto simp add: Poisson_short_range_function_def poisson_term_def Let_def
        split: Option.bind_splits if_splits)
  from poisson_term_0 [OF assms(1,2) t] v show ?thesis
    by (simp add: powi_d_eq)
qed

lemmas srf_defs = short_range_function_def short_range_function_derivative_def
  short_range_function_second_derivative_def short_range_function_third_derivative_def

lemma PoissonSimple_Inr:
  assumes "PoissonSimple c Cp Dp = Inr this"
  shows "\<exists>s1 s s0.
      PoissonSimple_short_range_function_derivative \<lparr>PoissonSimple_members.C = Cp, D = Dp\<rparr> 1 = Some s1
    \<and> PoissonSimple_short_range_function \<lparr>PoissonSimple_members.C = Cp, D = Dp\<rparr> 1 = Some s
    \<and> PoissonSimple_short_range_function \<lparr>PoissonSimple_members.C = Cp, D = Dp\<rparr> 0 = Some s0
    \<and> T0 this = s1 - s + s0"
  using assms
  by (auto simp add: PoissonSimple_def ctor_defs split: if_splits option.splits)

lemma Poisson_Inr:
  assumes "Poisson c Cp Dp dl = Inr this"
  shows "\<exists>b s1 s s0. binomial (word_of_int (Cp + Dp)) (word_of_int Cp) = Some b
    \<and> derived this = D_Poisson (Poisson_members_for c Cp Dp dl b)
    \<and> Poisson_short_range_function_derivative (Poisson_members_for c Cp Dp dl b) 1 = Some s1
    \<and> Poisson_short_range_function (Poisson_members_for c Cp Dp dl b) 1 = Some s
    \<and> Poisson_short_range_function (Poisson_members_for c Cp Dp dl b) 0 = Some s0
    \<and> T0 this = s1 - s + s0"
proof -
  from assms have ok: "\<not> (Cp < 1 \<or> Dp < - 1)"
    by (auto simp add: Poisson_def split: if_splits)
  from assms obtain b where b: "binomial (word_of_int (Cp + Dp)) (word_of_int Cp) = Some b"
    using ok by (cases "binomial (word_of_int (Cp + Dp)) (word_of_int Cp)")
      (simp_all add: Poisson_def Let_def)
  show ?thesis
    using assms ok b
    by (simp add: Poisson_def Poisson_members_for_def ctor_defs del: of_int_add)
       (auto split: option.splits)
qed

lemma T0_formula_Plain: "T0_formula (Plain dl) = Some (T0 (Plain dl))"
  by (simp add: T0_formula_def srf_defs Plain_base) (simp add: Plain_def ctor_defs)

lemma T0_formula_Wolf: "T0_formula (Wolf c a) = Some (T0 (Wolf c a))"
  by (simp add: T0_formula_def srf_defs Wolf_base) (simp add: Wolf_def ctor_defs)

lemma T0_formula_qPotential: "T0_formula (qPotential c n) = Some (T0 (qPotential c n))"
  by (simp add: T0_formula_def srf_defs qPotential_base) (simp add: qPotential_def ctor_defs)

lemma T0_formula_Fanourgakis: "T0_formula (Fanourgakis c) = Some (T0 (Fanourgakis c))"
  by (simp add: T0_formula_def srf_defs Fanourgakis_base) (simp add: Fanourgakis_def ctor_defs)

lemma T0_formula_PoissonSimple:
  assumes "PoissonSimple c Cp Dp = Inr this"
  shows "T0_formula this = Some (T0 this)"
  using PoissonSimple_Inr [OF assms] PoissonSimple_base(7) [OF assms]
  by (auto simp add: T0_formula_def srf_defs)

lemma T0_formula_Poisson:
  assumes "Poisson c Cp Dp dl = Inr this"
  shows "T0_formula this = Some (T0 this)"
  using Poisson_Inr [OF assms]
  by (auto simp add: T0_formula_def srf_defs)

lemma T0_Ewald:
  "T0 (Ewald c a eps dl)
   = (case eps of Infinity \<Rightarrow> 1 | Finite e \<Rightarrow> if e < 1 then 1 else 2 * (e - 1) / (2 * e + 1))"
  by (simp add: Ewald_def ctor_defs split: xdouble.splits)

lemma T0_formula_Ewald_eps: "T0_formula (Ewald c a eps dl) = T0_formula (Ewald c a eps' dl)"
  by (simp add: T0_formula_def srf_defs Ewald_def ctor_defs
      Ewald_short_range_function_def Ewald_short_range_function_derivative_def)

lemma qPochhammerSymbol_at_0:
  assumes "int32 n"
  shows "qPochhammerSymbol 0 0 n = 1"
proof (cases "0 \<le> n")
  case True
  then have "qPochhammerSymbol 0 0 n
        = (1 - 0) ^ nat n * (\<Prod>k\<in>{1..n}. \<Sum>j\<in>{1..k + 0}. (0::real) ^ nat (j - 1))"
    using assms by (intro qPochhammerSymbol_reformulated) (simp_all add: int32_def)
  also have "\<dots> = (\<Prod>k\<in>{1..n}. 1 - (0::real) ^ nat (0 + 1) * 0 ^ nat (k - 1))"
    using True by (intro reformulated_product) simp_all
  also have "\<dots> = 1"
    by simp
  finally show ?thesis .
next
  case False
  then have "for_loop 1 (n + 1) body s = s" for body and s :: real
    by (simp add: for_loop_stop)
  then show ?thesis
    by (simp add: qPochhammerSymbol_def powi_d_eq)
qed

lemma s0_Ewald: "short_range_function (Ewald c a eps dl) 0 = Some 1"
  by (simp add: srf_defs Ewald_def ctor_defs Ewald_short_range_function_def erfc_minus)

lemma s0_Wolf: "short_range_function (Wolf c a) 0 = Some 1"
  by (simp add: srf_defs Wolf_base Wolf_short_range_function_def erfc_0)

lemma s0_Plain: "short_range_function (Plain dl) 0 = Some 1"
  by (simp add: srf_defs Plain_base Plain_short_range_function_def)

lemma s0_qPotential: "int32 n \<Longrightarrow> short_range_function (qPotential c n) 0 = Some 1"
  by (simp add: srf_defs qPotential_base qPotential_short_range_function_def qPochhammerSymbol_at_0)

lemma s0_Fanourgakis: "short_range_function (Fanourgakis c) 0 = Some 1"
  by (simp add: srf_defs Fanourgakis_base Fanourgakis_short_range_function_def powi_d_eq)

lemma s0_PoissonSimple:
  assumes "int32 Cp" and "PoissonSimple c Cp Dp = Inr this"
  shows "short_range_function this 0 = Some 1"
proof -
  from PoissonSimple_Inr [OF assms(2)] obtain s0 where
    s0: "PoissonSimple_short_range_function \<lparr>PoissonSimple_members.C = Cp, D = Dp\<rparr> 0 = Some s0"
    by blast
  have "s0 = 1"
    using PoissonSimple_short_range_function_0 [OF _ _ s0] PoissonSimple_base(8) [OF assms(2)] assms(1)
    by (simp add: int32_def)
  with s0 show ?thesis
    by (simp add: srf_defs PoissonSimple_base(7) [OF assms(2)])
qed

lemma s0_Poisson:
  assumes "int32 Cp" and "Poisson c Cp Dp dl = Inr this"
  shows "short_range_function this 0 = Some 1"
proof -
  from Poisson_Inr [OF assms(2)] obtain b s0 where
    d: "derived this = D_Poisson (Poisson_members_for c Cp Dp dl b)"
    and s0: "Poisson_short_range_function (Poisson_members_for c Cp Dp dl b) 0 = Some s0"
    by blast
  have "Poisson_members.C (Poisson_members_for c Cp Dp dl b) = Cp"
    by (simp add: Poisson_members_for_def)
  then have "s0 = 1"
    using Poisson_short_range_function_0 [OF _ _ s0] Poisson_base(7) [OF assms(2)] assms(1)
    by (simp add: int32_def)
  with s0 d show ?thesis
    by (simp add: srf_defs)
qed

text \<open>
  For every object a constructor builds, of whatever scheme, the splitting function is
  exactly one at the reduced distance zero.
\<close>

lemma splitting_function_at_zero:
  assumes "constructed this"
  shows "short_range_function this 0 = Some 1"
  using assms
  by (induction rule: constructed.induct)
     (simp_all add: s0_Plain s0_Ewald s0_Wolf s0_qPotential s0_Fanourgakis s0_PoissonSimple s0_Poisson)

text \<open>
  Claim C4, as stated: every constructor sets \<^verbatim>\<open>T0\<close> to \<open>s'(1) - s(1) + s(0)\<close>. The
  constructor of \<^verbatim>\<open>Ewald\<close> does not: it computes \<^verbatim>\<open>T0\<close> from \<^verbatim>\<open>eps_sur\<close>, on which the
  splitting function does not depend, so that of two \<^verbatim>\<open>Ewald\<close> objects that differ in
  \<^verbatim>\<open>eps_sur\<close> only, at most one has \<^verbatim>\<open>T0\<close> equal to \<open>s'(1) - s(1) + s(0)\<close>.
\<close>

theorem T0_of_Ewald_is_not_the_formula:
  "\<not> (T0_formula (Ewald 29 (1 / 10) (Finite 1) Infinity)
         = Some (T0 (Ewald 29 (1 / 10) (Finite 1) Infinity))
      \<and> T0_formula (Ewald 29 (1 / 10) (Finite 4) Infinity)
         = Some (T0 (Ewald 29 (1 / 10) (Finite 4) Infinity)))"
proof -
  have "T0 (Ewald 29 (1 / 10) (Finite 1) Infinity) = 0"
    by (simp add: T0_Ewald)
  moreover have "T0 (Ewald 29 (1 / 10) (Finite 4) Infinity) = 2 / 3"
    by (simp add: T0_Ewald)
  moreover have "T0_formula (Ewald 29 (1 / 10) (Finite 1) Infinity)
                 = T0_formula (Ewald 29 (1 / 10) (Finite 4) Infinity)"
    by (rule T0_formula_Ewald_eps)
  ultimately show ?thesis by simp
qed

text \<open>
  Claim C4, amended: the constructors of \<^verbatim>\<open>Plain\<close>, \<^verbatim>\<open>Wolf\<close>, \<^verbatim>\<open>qPotential\<close>,
  \<^verbatim>\<open>PoissonSimple\<close>, \<^verbatim>\<open>Poisson\<close> and \<^verbatim>\<open>Fanourgakis\<close> (every object whose tag is not
  \<^verbatim>\<open>Scheme::ewald\<close>) set \<^verbatim>\<open>T0\<close> to \<open>s'(1) - s(1) + s(0)\<close> of the scheme's splitting function;
  the constructor of \<^verbatim>\<open>Ewald\<close> sets \<^verbatim>\<open>T0\<close> to \<open>1\<close> when \<^verbatim>\<open>eps_sur\<close> is infinite or below
  one, and to \<open>2 (eps_sur - 1) / (2 eps_sur + 1)\<close> otherwise. No operation returns an object,
  so the value set at construction stays.
\<close>

theorem T0_of_constructed:
  assumes "constructed this"
  shows "(scheme this \<noteq> ewald \<longrightarrow> T0_formula this = Some (T0 this))
    \<and> (\<forall>c a eps dl. this = Ewald c a eps dl \<longrightarrow>
          T0 this = (case eps of Infinity \<Rightarrow> 1
                     | Finite e \<Rightarrow> if e < 1 then 1 else 2 * (e - 1) / (2 * e + 1)))"
  using assms
  by (induction rule: constructed.induct)
     (simp_all add: T0_formula_Plain T0_formula_Wolf T0_formula_qPotential T0_formula_Fanourgakis
        T0_formula_PoissonSimple T0_formula_Poisson T0_Ewald Ewald_base)

theorem T0_of_constructed_witness:
  "\<exists>this. Poisson 29 3 3 (Finite 23) = Inr this \<and> constructed this
     \<and> scheme this \<noteq> ewald \<and> T0_formula this = Some (T0 this)
     \<and> constructed (Ewald 29 (1 / 10) (Finite 4) Infinity)
     \<and> T0 (Ewald 29 (1 / 10) (Finite 4) Infinity) = 2 / 3"
proof -
  obtain this where 1: "Poisson 29 3 3 (Finite 23) = Inr this"
    using Poisson_3_3 by blast
  have 2: "constructed this"
    using 1 by (rule constructed.Poisson [rotated 2]) (simp_all add: int32_def)
  have 3: "scheme this \<noteq> ewald"
    by (simp add: Poisson_base(5) [OF 1])
  have 4: "constructed (Ewald 29 (1 / 10) (Finite 4) Infinity)"
    by (rule constructed.Ewald)
  have "T0 (Ewald 29 (1 / 10) (Finite 4) Infinity) = 2 / 3"
    using T0_of_constructed [OF 4] by simp
  then show ?thesis
    using 1 2 3 4 T0_of_constructed [OF 2] by blast
qed

section \<open>Fanourgakis and Poisson with \<open>C = 4\<close>, \<open>D = 3\<close>\<close>

lemma Poisson_4_3:
  "\<exists>this. Poisson c 4 3 Infinity = Inr this
     \<and> derived this = D_Poisson (Poisson_members_for c 4 3 Infinity 35)"
proof -
  have b: "binomial (word_of_int (4 + 3)) (word_of_int 4) = Some 35"
    by (simp add: binomial_def divide_u_def)
  have "\<exists>this. Poisson c 4 3 Infinity = Inr this"
    by (simp add: Poisson_def Let_def Poisson_short_range_function_def
      Poisson_short_range_function_derivative_def binomial_def divide_u_def powi_d_eq)
  then obtain this where t: "Poisson c 4 3 Infinity = Inr this" by blast
  from Poisson_Inr [OF t] b have "derived this = D_Poisson (Poisson_members_for c 4 3 Infinity 35)"
    by auto
  with t show ?thesis by blast
qed

lemma Poisson_4_3_members:
  "Poisson_members.C (Poisson_members_for c 4 3 Infinity 35) = 4"
  "Poisson_members.D (Poisson_members_for c 4 3 Infinity 35) = 3"
  "yukawa (Poisson_members_for c 4 3 Infinity 35) = False"
  "binomCDC (Poisson_members_for c 4 3 Infinity 35) = 105"
  by (simp_all add: Poisson_members_for_def)

lemma Poisson_4_3_s:
  "Poisson_short_range_function (Poisson_members_for c 4 3 Infinity 35) q
   = Some (Fanourgakis_short_range_function q)"
  by (simp add: Poisson_short_range_function_def Poisson_4_3_members Let_def
      Fanourgakis_short_range_function_def binomial_def divide_u_def powi_d_eq)
     (simp add: power2_eq_square power3_eq_cube algebra_simps)

lemma Poisson_4_3_ds:
  "Poisson_short_range_function_derivative (Poisson_members_for c 4 3 Infinity 35) q
   = Some (Fanourgakis_short_range_function_derivative q)"
  by (simp add: Poisson_short_range_function_derivative_def Poisson_4_3_members Let_def
      Fanourgakis_short_range_function_derivative_def binomial_def divide_u_def powi_d_eq)
     (simp add: power2_eq_square power3_eq_cube power4_eq_xxxx eval_nat_numeral algebra_simps)

lemma Poisson_4_3_dds:
  "Poisson_short_range_function_second_derivative (Poisson_members_for c 4 3 Infinity 35) q
   = Some (Fanourgakis_short_range_function_second_derivative q)"
  by (simp add: Poisson_short_range_function_second_derivative_def Poisson_4_3_members Let_def
      Fanourgakis_short_range_function_second_derivative_def powi_d_eq)
     (simp add: power2_eq_square power3_eq_cube algebra_simps)

lemma Poisson_4_3_ddds:
  "Poisson_short_range_function_third_derivative (Poisson_members_for c 4 3 Infinity 35) q
   = Some (Fanourgakis_short_range_function_third_derivative q)"
  by (simp add: Poisson_short_range_function_third_derivative_def Poisson_4_3_members Let_def
      Fanourgakis_short_range_function_third_derivative_def powi_d_eq)
     (simp add: power2_eq_square power3_eq_cube algebra_simps diff_divide_distrib)

text \<open>
  Claim C3: for every cutoff and every \<open>q\<close>, the Fanourgakis scheme and the unscreened
  Poisson scheme constructed with \<open>C = 4\<close> and \<open>D = 3\<close> have the same splitting function and
  the same first, second and third derivative of it.
\<close>

theorem Fanourgakis_is_Poisson_4_3:
  "\<exists>this. Poisson c 4 3 Infinity = Inr this
     \<and> short_range_function this q = short_range_function (Fanourgakis c) q
     \<and> short_range_function_derivative this q = short_range_function_derivative (Fanourgakis c) q
     \<and> short_range_function_second_derivative this q
         = short_range_function_second_derivative (Fanourgakis c) q
     \<and> short_range_function_third_derivative this q
         = short_range_function_third_derivative (Fanourgakis c) q"
proof -
  from Poisson_4_3 obtain this where t: "Poisson c 4 3 Infinity = Inr this"
    and d: "derived this = D_Poisson (Poisson_members_for c 4 3 Infinity 35)"
    by blast
  show ?thesis
    using t d
    by (auto simp add: srf_defs Fanourgakis_base Poisson_4_3_s Poisson_4_3_ds Poisson_4_3_dds
        Poisson_4_3_ddds)
qed

section \<open>Screening\<close>

lemma sqrt_e_bounds: "3 / 2 \<le> exp (1 / 2 :: real) \<and> exp (1 / 2 :: real) \<le> 2"
proof
  show "3 / 2 \<le> exp (1 / 2 :: real)"
    using exp_ge_add_one_self [of "1 / 2 :: real"] by simp
  have "exp (1 / 2 :: real) * exp (1 / 2) = exp 1"
    by (simp add: exp_add [symmetric])
  then have sq: "exp (1 / 2 :: real) * exp (1 / 2) \<le> 3"
    using exp_le by simp
  show "exp (1 / 2 :: real) \<le> 2"
  proof (rule ccontr)
    assume "\<not> exp (1 / 2 :: real) \<le> 2"
    then have "2 < exp (1 / 2 :: real)" by simp
    then have "2 * 2 < exp (1 / 2 :: real) * exp (1 / 2)"
      by (intro mult_strict_mono) simp_all
    with sq show False by simp
  qed
qed

lemma screened_value_bound:
  fixes x :: real
  assumes "3 / 2 \<le> x" and "x \<le> 2"
  shows "1 / 4 \<le> (x * x / (1 + x * x)) * (x * x / (1 + x * x)) * (1 / x)"
proof -
  have x0: "0 < x" using assms by simp
  have a: "2 * (x * x * x) \<le> (4 - x) * (x * x * x)"
    using assms x0 by (intro mult_right_mono) simp_all
  have "3 / 2 * (3 / 2) \<le> x * x"
    using assms by (intro mult_mono) simp_all
  then have b: "9 / 4 \<le> x * x" by simp
  have "9 / 4 * (1 / 2) \<le> (x * x) * (x - 1)"
    using b assms by (intro mult_mono) simp_all
  then have c: "9 / 8 \<le> x * x * x - x * x"
    by (simp add: algebra_simps)
  have key: "(1 + x * x) * (1 + x * x) \<le> 4 * (x * x * x)"
    using a c by (simp add: algebra_simps)
  have "(x * x / (1 + x * x)) * (x * x / (1 + x * x)) * (1 / x)
        = x * x * x / ((1 + x * x) * (1 + x * x))"
    using x0 by (simp add: field_simps)
  also have "\<dots> \<ge> 1 / 4"
  proof -
    have pos: "0 < (1 + x * x) * (1 + x * x)"
      by (intro mult_pos_pos) (simp_all add: add_pos_nonneg)
    show ?thesis
      using key pos by (simp add: pos_le_divide_eq)
  qed
  finally show ?thesis .
qed

lemma Poisson_1_1_screened:
  "\<exists>this. Poisson 2 1 1 (Finite 2) = Inr this
     \<and> derived this = D_Poisson (Poisson_members_for 2 1 1 (Finite 2) 2)"
proof -
  have b: "binomial (word_of_int (1 + 1)) (word_of_int 1) = Some 2"
    by (simp add: binomial_def divide_u_def)
  have "\<exists>this. Poisson 2 1 1 (Finite 2) = Inr this"
    by (simp add: Poisson_def Let_def Poisson_short_range_function_def
      Poisson_short_range_function_derivative_def binomial_def divide_u_def powi_d_eq)
  then obtain this where t: "Poisson 2 1 1 (Finite 2) = Inr this" by blast
  from Poisson_Inr [OF t] b have "derived this = D_Poisson (Poisson_members_for 2 1 1 (Finite 2) 2)"
    by auto
  with t show ?thesis by blast
qed

lemma Poisson_1_1_unscreened:
  "\<exists>this. Poisson 2 1 1 Infinity = Inr this
     \<and> derived this = D_Poisson (Poisson_members_for 2 1 1 Infinity 2)"
proof -
  have b: "binomial (word_of_int (1 + 1)) (word_of_int 1) = Some 2"
    by (simp add: binomial_def divide_u_def)
  have "\<exists>this. Poisson 2 1 1 Infinity = Inr this"
    by (simp add: Poisson_def Let_def Poisson_short_range_function_def
      Poisson_short_range_function_derivative_def binomial_def divide_u_def powi_d_eq)
  then obtain this where t: "Poisson 2 1 1 Infinity = Inr this" by blast
  from Poisson_Inr [OF t] b have "derived this = D_Poisson (Poisson_members_for 2 1 1 Infinity 2)"
    by auto
  with t show ?thesis by blast
qed

lemma exp_1_2: "exp (1 :: real) = exp (1 / 2) * exp (1 / 2)"
  "exp (2 :: real) = exp (1 / 2) * exp (1 / 2) * (exp (1 / 2) * exp (1 / 2))"
  by (simp_all add: exp_add [symmetric])

lemma yukawa_qp:
  fixes x :: real
  assumes "1 < x"
  shows "1 - (1 - x * x) * (1 / (1 - x * x * (x * x))) = x * x / (1 + x * x)"
proof -
  have "1 * 1 < x * x" using assms by (intro mult_strict_mono) simp_all
  then have n: "1 - x * x \<noteq> 0" "1 + x * x \<noteq> 0" by simp_all
  have "1 - x * x * (x * x) = (1 - x * x) * (1 + x * x)"
    by (simp add: algebra_simps)
  then have "(1 - x * x) * (1 / (1 - x * x * (x * x))) = 1 / (1 + x * x)"
    using n by simp
  then show ?thesis
    using n by (simp add: field_simps)
qed

lemma screened_s:
  "Poisson_short_range_function (Poisson_members_for 2 1 1 (Finite 2) 2) (1 / 2)
   = Some ((exp (1 / 2) * exp (1 / 2) / (1 + exp (1 / 2) * exp (1 / 2)))
         * (exp (1 / 2) * exp (1 / 2) / (1 + exp (1 / 2) * exp (1 / 2))))"
proof -
  have "1 < exp (1 / 2 :: real)" by simp
  from yukawa_qp [OF this] show ?thesis
    by (simp add: Poisson_short_range_function_def Poisson_members_for_def Let_def
        binomial_def divide_u_def powi_d_eq power2_eq_square exp_1_2)
qed

lemma unscreened_s:
  "Poisson_short_range_function (Poisson_members_for 2 1 1 Infinity 2) (1 / 2) = Some (1 / 4)"
  by (simp add: Poisson_short_range_function_def Poisson_members_for_def Let_def
        binomial_def divide_u_def powi_d_eq power2_eq_square)

text \<open>
  Claim C8, as stated: for every scheme that accepts a Debye length, the ion potential with a
  finite Debye length is strictly smaller in magnitude than the one without screening.
  For \<^verbatim>\<open>Poisson\<close> with \<open>C = 1\<close>, \<open>D = 1\<close>, cutoff \<open>2\<close>, charge \<open>1\<close> at distance \<open>1\<close> it is not:
  with the Debye length \<open>2\<close> the potential is at least \<open>1/4\<close>, its value without screening.
\<close>

theorem Poisson_screened_potential_is_not_smaller:
  "\<exists>this that a b. Poisson 2 1 1 (Finite 2) = Inr this \<and> Poisson 2 1 1 Infinity = Inr that
     \<and> ion_potential this 1 1 = Some a \<and> ion_potential that 1 1 = Some b
     \<and> \<not> \<bar>a\<bar> < \<bar>b\<bar>"
proof -
  from Poisson_1_1_screened obtain this where t: "Poisson 2 1 1 (Finite 2) = Inr this"
    and d: "derived this = D_Poisson (Poisson_members_for 2 1 1 (Finite 2) 2)"
    by blast
  from Poisson_1_1_unscreened obtain that where t': "Poisson 2 1 1 Infinity = Inr that"
    and d': "derived that = D_Poisson (Poisson_members_for 2 1 1 Infinity 2)"
    by blast
  let ?x = "exp (1 / 2 :: real)"
  let ?s = "(?x * ?x / (1 + ?x * ?x)) * (?x * ?x / (1 + ?x * ?x))"
  have s: "short_range_function this (1 / 2) = Some ?s"
    using d by (simp add: srf_defs screened_s)
  have "ion_potential this 1 1 = Some (1 / 1 * ?s * exp (- (1 / 2)))"
    by (simp add: ion_potential_def Poisson_base [OF t] s)
  moreover have "exp (- (1 / 2 :: real)) = 1 / ?x"
    by (simp only: exp_minus inverse_eq_divide)
  ultimately have a: "ion_potential this 1 1 = Some (?s * (1 / ?x))"
    by simp
  have s': "short_range_function that (1 / 2) = Some (1 / 4)"
    using d' by (simp add: srf_defs unscreened_s)
  have b: "ion_potential that 1 1 = Some (1 / 4)"
    by (simp add: ion_potential_def Poisson_base [OF t'] s')
  have "1 / 4 \<le> ?s * (1 / ?x)"
    using sqrt_e_bounds by (intro screened_value_bound) simp_all
  then have "\<not> \<bar>?s * (1 / ?x)\<bar> < \<bar>1 / 4 :: real\<bar>"
    by simp
  with t t' a b show ?thesis by blast
qed

text \<open>
  Claim C8, amended: for the \<^verbatim>\<open>Plain\<close> scheme, every finite Debye length \<open>dl > 0\<close>, every
  charge \<open>z \<noteq> 0\<close> and every distance \<open>r > 0\<close>, the ion potential computed with that Debye length
  is strictly smaller in magnitude than the ion potential of \<^verbatim>\<open>Plain\<close> constructed with the
  unbounded Debye length, at the same \<open>r\<close>.
\<close>

theorem Plain_screened_potential_is_smaller:
  assumes "0 < dl" and "z \<noteq> 0" and "0 < r"
  shows "\<exists>a b. ion_potential (Plain (Finite dl)) z r = Some a
     \<and> ion_potential (Plain Infinity) z r = Some b \<and> \<bar>a\<bar> < \<bar>b\<bar>"
proof -
  have a: "ion_potential (Plain (Finite dl)) z r = Some (z / r * exp (- (1 / dl * r)))"
    by (simp add: ion_potential_def Plain_base srf_defs Plain_short_range_function_def)
  have b: "ion_potential (Plain Infinity) z r = Some (z / r)"
    by (simp add: ion_potential_def Plain_base srf_defs Plain_short_range_function_def)
  have "0 < 1 / dl * r" using assms by simp
  then have e: "exp (- (1 / dl * r)) < 1" by simp
  have "0 < \<bar>z / r\<bar>" using assms by simp
  then have "\<bar>z / r\<bar> * exp (- (1 / dl * r)) < \<bar>z / r\<bar> * 1"
    using e by (intro mult_strict_left_mono)
  then have "\<bar>z / r * exp (- (1 / dl * r))\<bar> < \<bar>z / r\<bar>"
    by (simp add: abs_mult)
  with a b show ?thesis by blast
qed

theorem Plain_screened_potential_is_smaller_witness:
  "(0::real) < 23 \<and> (2::real) \<noteq> 0 \<and> (0::real) < 23
   \<and> (\<exists>a b. ion_potential (Plain (Finite 23)) 2 23 = Some a
     \<and> ion_potential (Plain Infinity) 2 23 = Some b \<and> \<bar>a\<bar> < \<bar>b\<bar>)"
  using Plain_screened_potential_is_smaller [of 23 2 23] by simp

section \<open>The accepted parameters of the Poisson family\<close>

lemma fact_le_1: "m \<le> 1 \<Longrightarrow> fact m = (1::nat)"
  by (cases m) simp_all

lemma factorial_fact: "factorial n = of_nat (fact (unat n))"
proof (induction n rule: factorial.induct)
  case (1 n)
  show ?case
  proof (cases "n \<le> 1")
    case True
    then have "unat n \<le> 1" by (simp add: word_le_nat_alt)
    then have "fact (unat n) = (1::nat)" by (rule fact_le_1)
    with True show ?thesis by (subst factorial.simps) simp
  next
    case False
    then have n0: "n \<noteq> 0" by auto
    then have u: "unat n = Suc (unat (n - 1))"
      by (simp add: unat_minus_one unat_gt_0)
    obtain k where k: "unat (n - 1) = k" by simp
    have f: "fact (unat n) = unat n * (fact k :: nat)"
      by (simp add: u k)
    have "factorial n = n * factorial (n - 1)"
      using False by (subst factorial.simps) simp
    also have "\<dots> = of_nat (unat n) * of_nat (fact k)"
      using 1 False by (simp add: k)
    also have "\<dots> = of_nat (unat n * fact k)"
      by simp
    finally show ?thesis by (simp only: f)
  qed
qed

lemma two_32_dvd_fact: "(2::nat) ^ 32 dvd fact m \<longleftrightarrow> 34 \<le> m"
proof
  assume d: "(2::nat) ^ 32 dvd fact m"
  show "34 \<le> m"
  proof (rule ccontr)
    assume "\<not> 34 \<le> m"
    then have "m \<le> 33" by simp
    then have "(fact m :: nat) dvd fact 33" by (rule fact_dvd)
    with d have "(2::nat) ^ 32 dvd fact 33" by (rule dvd_trans)
    then show False by (simp add: fact_numeral)
  qed
next
  assume "34 \<le> m"
  then have "(fact 34 :: nat) dvd fact m" by (rule fact_dvd)
  moreover have "(2::nat) ^ 32 dvd fact 34" by (simp add: fact_numeral)
  ultimately show "(2::nat) ^ 32 dvd fact m" by (rule dvd_trans [rotated])
qed

lemma factorial_eq_0_iff: "factorial n = 0 \<longleftrightarrow> 34 \<le> unat n"
  using two_32_dvd_fact [of "unat n"]
  by (simp add: factorial_fact word_of_nat_eq_0_iff)

lemma binomial_None_iff:
  "binomial n k = None \<longleftrightarrow> 34 \<le> unat k \<or> 34 \<le> unat (n - k)"
  by (auto simp add: binomial_def divide_u_def factorial_eq_0_iff split: Option.bind_splits)

lemma unat_word_of_int_negative:
  assumes "- (2 ^ 32) \<le> i" and "i < 0"
  shows "unat (word_of_int i :: 32 word) = nat (i + 2 ^ 32)"
proof -
  have "i mod 2 ^ 32 = (i + 2 ^ 32) mod 2 ^ 32"
    by simp
  also have "\<dots> = i + 2 ^ 32"
    using assms by (intro mod_pos_pos_trivial) simp_all
  finally show ?thesis
    by (simp add: unat_eq_nat_uint uint_word_of_int)
qed

lemma unat_word_of_int32:
  assumes "int32 i"
  shows "unat (word_of_int i :: 32 word) = (if 0 \<le> i then nat i else nat (i + 2 ^ 32))"
  using assms unat_word_of_int_32 [of i] unat_word_of_int_negative [of i]
  by (simp add: int32_def)

lemma binomial_CD_None_iff:
  assumes "int32 Cp" and "int32 Dp" and "1 \<le> Cp" and "- 1 \<le> Dp"
  shows "binomial (word_of_int (Cp + Dp)) (word_of_int Cp) = None
         \<longleftrightarrow> Dp = - 1 \<or> 33 < Dp \<or> 33 < Cp"
proof -
  have d: "word_of_int (Cp + Dp) - word_of_int Cp = (word_of_int Dp :: 32 word)"
    by simp
  have c: "34 \<le> unat (word_of_int Cp :: 32 word) \<longleftrightarrow> 33 < Cp"
    using assms by (auto simp add: unat_word_of_int32)
  have "34 \<le> unat (word_of_int Dp :: 32 word) \<longleftrightarrow> Dp = - 1 \<or> 33 < Dp"
    using assms by (auto simp add: unat_word_of_int32 int32_def)
  with c d show ?thesis
    by (simp only: binomial_None_iff) auto
qed

lemma second_derivative_None_iff:
  "PoissonSimple_short_range_function_second_derivative \<lparr>PoissonSimple_members.C = Cp, D = Dp\<rparr> q = None
   \<longleftrightarrow> binomial (word_of_int (Cp + Dp)) (word_of_int Cp) = None"
  by (simp add: PoissonSimple_short_range_function_second_derivative_def split: Option.bind_splits)

lemma third_derivative_None_iff:
  "PoissonSimple_short_range_function_third_derivative \<lparr>PoissonSimple_members.C = Cp, D = Dp\<rparr> q = None
   \<longleftrightarrow> binomial (word_of_int (Cp + Dp)) (word_of_int Cp) = None"
  by (simp add: PoissonSimple_short_range_function_third_derivative_def split: Option.bind_splits)

lemma poisson_loop_None:
  assumes "1 \<le> Cp" and "- 1 \<le> Dp" and "Dp \<le> 0"
  shows "for_loop 0 Cp (poisson_term Cp Dp q) (Some 0) = None"
proof -
  have "int32 (Dp - 1)" "\<not> 0 \<le> Dp - 1"
    using assms by (simp_all add: int32_def)
  then have "34 \<le> unat (word_of_int (Dp - 1) :: 32 word)"
    using assms(2) by (simp only: unat_word_of_int32) simp
  then have "binomial (word_of_int (Dp - 1 + 0)) (word_of_int 0) = None"
    by (simp add: binomial_None_iff)
  then have "poisson_term Cp Dp q 0 (Some 0) = None"
    by (simp add: poisson_term_def)
  moreover have "for_loop 0 Cp (poisson_term Cp Dp q) (Some 0)
        = for_loop 1 Cp (poisson_term Cp Dp q) (poisson_term Cp Dp q 0 (Some 0))"
    using assms(1) for_loop_step [of 0 Cp] by simp
  moreover have "for_loop 1 Cp (poisson_term Cp Dp q) None = None"
    by (rule for_loop_None) (simp add: poisson_term_def)
  ultimately show ?thesis by simp
qed

lemma PoissonSimple_s_None:
  assumes "1 \<le> Cp" and "- 1 \<le> Dp" and "Dp \<le> 0"
  shows "PoissonSimple_short_range_function \<lparr>PoissonSimple_members.C = Cp, D = Dp\<rparr> q = None"
  using poisson_loop_None [OF assms, of q]
  by (simp add: PoissonSimple_short_range_function_def poisson_term_def)

lemma Poisson_s_None:
  assumes "1 \<le> Cp" and "- 1 \<le> Dp" and "Dp \<le> 0"
  shows "Poisson_short_range_function (Poisson_members_for c Cp Dp dl b) q = None"
proof -
  have "Poisson_short_range_function (Poisson_members_for c Cp Dp dl b) q
        = do {
            tmp \<leftarrow> for_loop 0 Cp (poisson_term Cp Dp
                     (if yukawa (Poisson_members_for c Cp Dp dl b)
                      then (1 - exp (2 * kappaRed (Poisson_members_for c Cp Dp dl b) * q))
                           * yukawa_denom (Poisson_members_for c Cp Dp dl b) else q)) (Some 0);
            Some (powi_d (1 - (if yukawa (Poisson_members_for c Cp Dp dl b)
                      then (1 - exp (2 * kappaRed (Poisson_members_for c Cp Dp dl b) * q))
                           * yukawa_denom (Poisson_members_for c Cp Dp dl b) else q))
                    (word_of_int (Dp + 1)) * tmp)
          }"
    by (simp add: Poisson_short_range_function_def poisson_term_def Let_def Poisson_members_for_def)
  then show ?thesis
    by (simp only: poisson_loop_None [OF assms]) simp
qed

lemma PoissonSimple_division_by_zero:
  assumes "1 \<le> Cp" and "- 1 \<le> Dp" and "Dp \<le> 0"
  shows "PoissonSimple c Cp Dp = Inl division_by_zero"
  using assms PoissonSimple_s_None [OF assms]
  by (simp add: PoissonSimple_def Let_def split: option.splits)

lemma Poisson_failures:
  "Poisson c Cp Dp dl = Inl e \<Longrightarrow> (\<exists>msg. e = runtime_error msg) \<or> e = division_by_zero"
  by (auto simp add: Poisson_def Let_def split: if_splits option.splits)

lemma Poisson_division_by_zero:
  assumes "1 \<le> Cp" and "- 1 \<le> Dp" and "Dp \<le> 0"
  shows "Poisson c Cp Dp dl = Inl division_by_zero"
proof (cases "Poisson c Cp Dp dl")
  case (Inl e)
  moreover have "e \<noteq> runtime_error msg" for msg
    using Inl assms by (auto simp add: Poisson_def Let_def split: if_splits option.splits)
  ultimately show ?thesis
    using Poisson_failures [OF Inl] by auto
next
  case (Inr this)
  from Poisson_Inr [OF Inr] obtain b s where
    "Poisson_short_range_function (Poisson_members_for c Cp Dp dl b) 1 = Some s"
    by blast
  with Poisson_s_None [OF assms, of c dl b 1] show ?thesis by simp
qed

lemma check_accepts:
  assumes "1 \<le> Cp" and "- 1 \<le> Dp"
  shows "PoissonSimple c Cp Dp \<noteq> Inl (runtime_error e)"
    and "Poisson c Cp Dp dl \<noteq> Inl (runtime_error e)"
  using assms
  by (auto simp add: PoissonSimple_def Poisson_def Let_def split: option.splits)

lemma PoissonSimple_1_1: "\<exists>this. PoissonSimple 29 1 1 = Inr this"
  by (simp add: PoissonSimple_def Let_def PoissonSimple_short_range_function_def
      PoissonSimple_short_range_function_derivative_def binomial_def divide_u_def powi_d_eq)

text \<open>
  Claim C9, as stated: with parameters the constructors of \<^verbatim>\<open>Poisson\<close> and
  \<^verbatim>\<open>PoissonSimple\<close> accept, the second and the third derivative pass a negative quantity to
  an unsigned parameter, so they are not total, and they are total only when all exponents
  and arguments of \<^verbatim>\<open>binomial\<close> are non-negative. The last part fails: \<^verbatim>\<open>PoissonSimple\<close>
  is constructed from \<open>C = 1\<close>, \<open>D = 1\<close>, its third derivative passes \<open>C - 2 = D - 2 = -1\<close> to
  \<^verbatim>\<open>powi\<close>, where it becomes the exponent \<open>4294967295\<close>, and it returns a value (\<open>0\<close>, as the
  last factor is \<open>0\<close>; \<^verbatim>\<open>__builtin_powi\<close>, which reads that exponent as \<open>-1\<close>, gives \<open>0\<close> at
  \<open>q = 1/2\<close> as well).
\<close>

theorem third_derivative_defined_with_negative_exponent:
  "\<exists>this. PoissonSimple 29 1 1 = Inr this
     \<and> (1::int) - 2 < 0
     \<and> unat (word_of_int (1 - 2) :: 32 word) = 4294967295
     \<and> short_range_function_third_derivative this (1 / 2) = Some 0"
proof -
  obtain this where t: "PoissonSimple 29 1 1 = Inr this"
    using PoissonSimple_1_1 by blast
  have "short_range_function_third_derivative this (1 / 2) = Some 0"
    by (simp add: short_range_function_third_derivative_def PoissonSimple_base(7) [OF t]
        PoissonSimple_short_range_function_third_derivative_def binomial_def divide_u_def)
  moreover have "unat (word_of_int (1 - 2) :: 32 word) = 4294967295"
    using unat_word_of_int_negative [of "1 - 2"] by simp
  ultimately show ?thesis
    using t by simp
qed

text \<open>
  Claim C9, amended: the constructors of \<^verbatim>\<open>Poisson\<close> and \<^verbatim>\<open>PoissonSimple\<close> do not throw for
  \<open>C \<ge> 1\<close> and \<open>D \<ge> -1\<close>, so their check accepts \<open>C = 1\<close>, \<open>D = 0\<close> and \<open>D = -1\<close>. With such
  parameters the derivatives pass a negative \<^verbatim>\<open>int\<close> (\<open>D - 1\<close>, \<open>D - 2\<close>, \<open>C - 2\<close>) to an
  unsigned parameter, where it is converted modulo \<open>2 ^ 32\<close>. The second and the third
  derivative of \<^verbatim>\<open>PoissonSimple\<close> are not total over the accepted parameters: they are
  undefined (an unsigned division by zero in \<^verbatim>\<open>binomial(C + D, C)\<close>) exactly when \<open>D = -1\<close>,
  \<open>D > 33\<close> or \<open>C > 33\<close>, and return a value for every other accepted pair, a negative exponent
  or not. For \<open>D \<le> 0\<close> the two constructors themselves end in that division by zero.
\<close>

theorem PoissonSimple_derivatives_defined:
  assumes "int32 Cp" and "int32 Dp" and "1 \<le> Cp" and "- 1 \<le> Dp"
  shows "PoissonSimple c Cp Dp \<noteq> Inl (runtime_error e)
    \<and> Poisson c Cp Dp dl \<noteq> Inl (runtime_error e)
    \<and> (Dp \<le> 0 \<longrightarrow> unat (word_of_int (Dp - 1) :: 32 word) = nat (Dp - 1 + 2 ^ 32))
    \<and> (Dp \<le> 1 \<longrightarrow> unat (word_of_int (Dp - 2) :: 32 word) = nat (Dp - 2 + 2 ^ 32))
    \<and> (Cp = 1 \<longrightarrow> unat (word_of_int (Cp - 2) :: 32 word) = nat (Cp - 2 + 2 ^ 32))
    \<and> (PoissonSimple_short_range_function_second_derivative
          \<lparr>PoissonSimple_members.C = Cp, D = Dp\<rparr> q = None
        \<longleftrightarrow> Dp = - 1 \<or> 33 < Dp \<or> 33 < Cp)
    \<and> (PoissonSimple_short_range_function_third_derivative
          \<lparr>PoissonSimple_members.C = Cp, D = Dp\<rparr> q = None
        \<longleftrightarrow> Dp = - 1 \<or> 33 < Dp \<or> 33 < Cp)
    \<and> (Dp \<le> 0 \<longrightarrow> PoissonSimple c Cp Dp = Inl division_by_zero
                  \<and> Poisson c Cp Dp dl = Inl division_by_zero)"
proof -
  have 1: "PoissonSimple c Cp Dp \<noteq> Inl (runtime_error e)"
    and 2: "Poisson c Cp Dp dl \<noteq> Inl (runtime_error e)"
    using assms(3,4) by (rule check_accepts)+
  have 3: "unat (word_of_int (Dp - 1) :: 32 word) = nat (Dp - 1 + 2 ^ 32)" if "Dp \<le> 0"
    using that assms(4) by (intro unat_word_of_int_negative) simp_all
  have 4: "unat (word_of_int (Dp - 2) :: 32 word) = nat (Dp - 2 + 2 ^ 32)" if "Dp \<le> 1"
    using that assms(4) by (intro unat_word_of_int_negative) simp_all
  have 5: "unat (word_of_int (Cp - 2) :: 32 word) = nat (Cp - 2 + 2 ^ 32)" if "Cp = 1"
    using that by (intro unat_word_of_int_negative) simp_all
  have 6: "PoissonSimple_short_range_function_second_derivative
             \<lparr>PoissonSimple_members.C = Cp, D = Dp\<rparr> q = None
           \<longleftrightarrow> Dp = - 1 \<or> 33 < Dp \<or> 33 < Cp"
    by (simp only: second_derivative_None_iff binomial_CD_None_iff [OF assms])
  have 7: "PoissonSimple_short_range_function_third_derivative
             \<lparr>PoissonSimple_members.C = Cp, D = Dp\<rparr> q = None
           \<longleftrightarrow> Dp = - 1 \<or> 33 < Dp \<or> 33 < Cp"
    by (simp only: third_derivative_None_iff binomial_CD_None_iff [OF assms])
  have 8: "PoissonSimple c Cp Dp = Inl division_by_zero \<and> Poisson c Cp Dp dl = Inl division_by_zero"
    if "Dp \<le> 0"
    using PoissonSimple_division_by_zero [OF assms(3,4) that]
      Poisson_division_by_zero [OF assms(3,4) that] by simp
  from 1 2 3 4 5 6 7 8 show ?thesis by blast
qed

theorem PoissonSimple_derivatives_defined_witness:
  "int32 1 \<and> int32 (- 1) \<and> (1::int) \<le> 1 \<and> (- 1 :: int) \<le> - 1
   \<and> PoissonSimple 29 1 (- 1) = Inl division_by_zero
   \<and> unat (word_of_int (- 1 - 1) :: 32 word) = 4294967294
   \<and> PoissonSimple_short_range_function_second_derivative
        \<lparr>PoissonSimple_members.C = 1, D = - 1\<rparr> (1 / 2) = None
   \<and> PoissonSimple_short_range_function_third_derivative
        \<lparr>PoissonSimple_members.C = 1, D = - 1\<rparr> (1 / 2) = None"
proof -
  have h: "int32 1" "int32 (- 1)" "(1::int) \<le> 1" "(- 1 :: int) \<le> - 1"
    by (simp_all add: int32_def)
  show ?thesis
    using h PoissonSimple_derivatives_defined [OF h, of 29 _ _ "1 / 2"]
    by simp
qed

section \<open>The splitting function of the Poisson family for \<open>D = 0\<close>\<close>

text \<open>
  Claim C6: for every scheme variant and every admissible construction parameter set, the
  splitting function is exactly one at the reduced distance zero. The Poisson family admits
  \<open>C \<ge> 1\<close> and \<open>D \<ge> -1\<close>, and the source documents \<open>(C, D) = (1, -1)\<close> as plain Coulomb and
  \<open>(1, 0)\<close> as the undamped Wolf scheme. For \<open>D = 0\<close> the claim asks for \<open>s(0) = 1\<close>; the code
  calls \<^verbatim>\<open>binomial(D - 1 + c, c)\<close>, whose parameters are unsigned: \<open>-1\<close> becomes \<open>4294967295\<close>,
  its factorial is \<open>0\<close> modulo \<open>2 ^ 32\<close>, and \<^verbatim>\<open>short_range_function\<close> divides by zero, first of
  all in the constructor.
\<close>

theorem splitting_function_at_zero_divides_by_zero:
  "factorial (word_of_int (0 - 1 + 0)) = 0
   \<and> binomial (word_of_int (0 - 1 + 0)) (word_of_int 0) = None
   \<and> PoissonSimple_short_range_function \<lparr>PoissonSimple_members.C = 1, D = 0\<rparr> 0 = None
   \<and> PoissonSimple 29 1 0 = Inl division_by_zero
   \<and> Poisson 29 1 0 Infinity = Inl division_by_zero"
proof -
  have u: "34 \<le> unat (word_of_int (0 - 1 + 0) :: 32 word)"
    using unat_word_of_int_negative [of "0 - 1 + 0"] by simp
  then have "factorial (word_of_int (0 - 1 + 0)) = 0"
    by (simp only: factorial_eq_0_iff)
  moreover have "binomial (word_of_int (0 - 1 + 0)) (word_of_int 0) = None"
    using u by (simp add: binomial_None_iff)
  moreover have "PoissonSimple_short_range_function \<lparr>PoissonSimple_members.C = 1, D = 0\<rparr> 0 = None"
    by (rule PoissonSimple_s_None) simp_all
  moreover have "PoissonSimple 29 1 0 = Inl division_by_zero"
    by (rule PoissonSimple_division_by_zero) simp_all
  moreover have "Poisson 29 1 0 Infinity = Inl division_by_zero"
    by (rule Poisson_division_by_zero) simp_all
  ultimately show ?thesis by blast
qed

section \<open>Field of an ion and potential of a dipole\<close>

lemma field_potential_option_identity:
  "map_option (dot mu) (ion_field this z r) = map_option ((*) z) (dipole_potential this mu r)"
proof (cases "less_x (squaredNorm r) (cutoff2 this)")
  case True
  show ?thesis
  proof (cases "short_range_function this (sqrt (squaredNorm r) * invcutoff this)")
    case None
    with True show ?thesis by (simp add: ion_field_def dipole_potential_def Let_def)
  next
    case (Some srf)
    show ?thesis
    proof (cases "short_range_function_derivative this (sqrt (squaredNorm r) * invcutoff this)")
      case None
      with True Some show ?thesis by (simp add: ion_field_def dipole_potential_def Let_def)
    next
      case (Some dsrf)
      with True \<open>short_range_function this (sqrt (squaredNorm r) * invcutoff this) = Some srf\<close>
      show ?thesis
        by (simp add: ion_field_def dipole_potential_def Let_def dot_field_parts)
    qed
  qed
next
  case False
  then show ?thesis
    by (simp add: ion_field_def dipole_potential_def Let_def dot_zero3)
qed

lemma for_loop_defined:
  fixes body :: "int \<Rightarrow> 'a option \<Rightarrow> 'a option" and body' :: "int \<Rightarrow> 'b option \<Rightarrow> 'b option"
  assumes step: "\<And>k a a'. (body k (Some a) = None) = (body' k (Some a') = None)"
    and none: "\<And>k. body k None = None" "\<And>k. body' k None = None"
  shows "(for_loop i hi body (Some a) = None) = (for_loop i hi body' (Some a') = None)"
proof (induction "nat (hi - i)" arbitrary: i a a')
  case 0
  then have "\<not> i < hi" by simp
  then show ?case by (simp add: for_loop_stop)
next
  case (Suc n)
  then have lt: "i < hi" and n: "n = nat (hi - (i + 1))" by simp_all
  show ?case
  proof (cases "body i (Some a)")
    case None
    then have "body' i (Some a') = None" using step by blast
    with None lt show ?thesis
      by (simp add: for_loop_step for_loop_None none)
  next
    case (Some x)
    then obtain x' where "body' i (Some a') = Some x'"
      using step [of i a a'] by (cases "body' i (Some a')") simp_all
    with Some lt Suc.hyps(1) [OF n, of x x'] show ?thesis
      by (simp add: for_loop_step)
  qed
qed

lemma PoissonSimple_s_defined:
  "(PoissonSimple_short_range_function m q = None) = (PoissonSimple_short_range_function m q' = None)"
proof -
  let ?L = "\<lambda>q. for_loop 0 (PoissonSimple_members.C m)
       (\<lambda>c tmp. do {
          tmp \<leftarrow> tmp;
          b \<leftarrow> binomial (word_of_int (PoissonSimple_members.D m - 1 + c)) (word_of_int c);
          Some (tmp + real (unat b) * real_of_int (PoissonSimple_members.C m - c)
                        / real_of_int (PoissonSimple_members.C m) * powi_d q (word_of_int c))
        }) (Some (0::real))"
  have L: "(?L q = None) = (?L q' = None)"
    by (rule for_loop_defined) (auto split: Option.bind_splits)
  have F: "(PoissonSimple_short_range_function m q = None) = (?L q = None)" for q
    by (auto simp add: PoissonSimple_short_range_function_def split: Option.bind_splits)
  show ?thesis
    using L by (simp only: F)
qed

lemma PoissonSimple_ds_defined:
  "(PoissonSimple_short_range_function_derivative m q = None)
   = (PoissonSimple_short_range_function_derivative m q' = None)"
proof -
  let ?L = "\<lambda>q. for_loop 1 (PoissonSimple_members.C m)
       (\<lambda>c tmps. do {
          (tmp1, tmp2) \<leftarrow> tmps;
          b1 \<leftarrow> binomial (word_of_int (PoissonSimple_members.D m - 1 + c)) (word_of_int c);
          b2 \<leftarrow> binomial (word_of_int (PoissonSimple_members.D m - 1 + c)) (word_of_int c);
          Some (tmp1 + real (unat b1) * real_of_int (PoissonSimple_members.C m - c)
                         / real_of_int (PoissonSimple_members.C m) * powi_d q (word_of_int c),
                tmp2 + real (unat b2) * real_of_int (PoissonSimple_members.C m - c)
                         / real_of_int (PoissonSimple_members.C m) * real_of_int c
                         * powi_d q (word_of_int (c - 1)))
        }) (Some (1::real, 0::real))"
  have L: "(?L q = None) = (?L q' = None)"
    by (rule for_loop_defined) (auto split: Option.bind_splits)
  have F: "(PoissonSimple_short_range_function_derivative m q = None) = (?L q = None)" for q
    by (auto simp add: PoissonSimple_short_range_function_derivative_def split: Option.bind_splits)
  show ?thesis
    using L by (simp only: F)
qed

lemma Poisson_s_defined:
  "(Poisson_short_range_function m q = None) = (Poisson_short_range_function m q' = None)"
proof -
  let ?L = "\<lambda>qp. for_loop 0 (Poisson_members.C m)
         (\<lambda>c tmp. do {
            tmp \<leftarrow> tmp;
            b \<leftarrow> binomial (word_of_int (Poisson_members.D m - 1 + c)) (word_of_int c);
            Some (tmp + real (unat b) * real_of_int (Poisson_members.C m - c)
                          / real_of_int (Poisson_members.C m) * powi_d qp (word_of_int c))
          }) (Some (0::real))"
  have L: "(?L qp = None) = (?L qp' = None)" for qp qp'
    by (rule for_loop_defined) (auto split: Option.bind_splits)
  have F: "(Poisson_short_range_function m q = None)
      = (?L (if yukawa m then (1 - exp (2 * kappaRed m * q)) * yukawa_denom m else q) = None)" for q
    by (auto simp add: Poisson_short_range_function_def Let_def split: Option.bind_splits)
  show ?thesis
    by (simp only: F) (rule L)
qed

lemma Poisson_ds_defined:
  "(Poisson_short_range_function_derivative m q = None)
   = (Poisson_short_range_function_derivative m q' = None)"
proof -
  let ?L = "\<lambda>qp. for_loop 1 (Poisson_members.C m)
         (\<lambda>c tmps. do {
            (tmp1, tmp2) \<leftarrow> tmps;
            b \<leftarrow> binomial (word_of_int (Poisson_members.D m - 1 + c)) (word_of_int c);
            let fact_c = real (unat b) * real_of_int (Poisson_members.C m - c)
                           / real_of_int (Poisson_members.C m);
            Some (tmp1 + fact_c * powi_d qp (word_of_int c),
                  tmp2 + fact_c * real_of_int c * powi_d qp (word_of_int (c - 1)))
          }) (Some (1::real, 0::real))"
  have L: "(?L qp = None) = (?L qp' = None)" for qp qp'
    by (rule for_loop_defined) (auto simp add: Let_def split: Option.bind_splits)
  have F: "(Poisson_short_range_function_derivative m q = None)
      = (?L (if yukawa m then (1 - exp (2 * kappaRed m * q)) * yukawa_denom m else q) = None)" for q
    by (auto simp add: Poisson_short_range_function_derivative_def Let_def split: Option.bind_splits)
  show ?thesis
    by (simp only: F) (rule L)
qed

lemma constructed_s_defined:
  assumes "constructed this"
  shows "short_range_function this q \<noteq> None \<and> short_range_function_derivative this q \<noteq> None"
  using assms
proof (induction rule: constructed.induct)
  case (PoissonSimple C_par D_par c this)
  from PoissonSimple_Inr [OF PoissonSimple(3)]
  have "PoissonSimple_short_range_function \<lparr>PoissonSimple_members.C = C_par, D = D_par\<rparr> 0 \<noteq> None"
    and "PoissonSimple_short_range_function_derivative \<lparr>PoissonSimple_members.C = C_par, D = D_par\<rparr> 1 \<noteq> None"
    by auto
  then have "PoissonSimple_short_range_function \<lparr>PoissonSimple_members.C = C_par, D = D_par\<rparr> q \<noteq> None"
    and "PoissonSimple_short_range_function_derivative \<lparr>PoissonSimple_members.C = C_par, D = D_par\<rparr> q \<noteq> None"
    using PoissonSimple_s_defined [of _ q 0] PoissonSimple_ds_defined [of _ q 1] by simp_all
  then show ?case
    by (simp add: srf_defs PoissonSimple_base(7) [OF PoissonSimple(3)])
next
  case (Poisson C_par D_par c dl this)
  from Poisson_Inr [OF Poisson(3)] obtain b where
    d: "derived this = D_Poisson (Poisson_members_for c C_par D_par dl b)"
    and "Poisson_short_range_function (Poisson_members_for c C_par D_par dl b) 0 \<noteq> None"
    and "Poisson_short_range_function_derivative (Poisson_members_for c C_par D_par dl b) 1 \<noteq> None"
    by auto
  then have "Poisson_short_range_function (Poisson_members_for c C_par D_par dl b) q \<noteq> None"
    and "Poisson_short_range_function_derivative (Poisson_members_for c C_par D_par dl b) q \<noteq> None"
    using Poisson_s_defined [of _ q 0] Poisson_ds_defined [of _ q 1] by simp_all
  with d show ?case
    by (simp add: srf_defs)
qed (simp_all add: srf_defs Plain_base Ewald_def ctor_defs Wolf_base qPotential_base Fanourgakis_base)

lemma field_potential_defined:
  assumes "constructed this"
  shows "ion_field this z r \<noteq> None \<and> dipole_potential this mu r \<noteq> None"
proof -
  from constructed_s_defined [OF assms, of "sqrt (squaredNorm r) * invcutoff this"]
  obtain s ds where
    "short_range_function this (sqrt (squaredNorm r) * invcutoff this) = Some s"
    "short_range_function_derivative this (sqrt (squaredNorm r) * invcutoff this) = Some ds"
    by auto
  then show ?thesis
    by (simp add: ion_field_def dipole_potential_def Let_def)
qed

text \<open>
  Claim C2: for every scheme, charge \<open>z\<close>, dipole \<open>mu\<close> and separation vector \<open>r\<close> with
  \<open>0 < |r| < cutoff\<close>, the ion field and the dipole potential are built from the same scalar
  bracket \<open>s(q) (1 + kappa r) - q s'(q)\<close>, so that
  \<open>mu \<cdot> ion_field(z, r) = z * dipole_potential(mu, r)\<close> holds exactly. For every object a
  constructor builds both operations return a value, and the equation holds for every
  separation vector other than zero: inside the cutoff, where the bracket is evaluated, and
  outside, where both sides are zero.
\<close>

theorem field_potential_identity:
  assumes "constructed this" and "0 < norm3 r"
  shows "\<exists>E p. ion_field this z r = Some E \<and> dipole_potential this mu r = Some p
           \<and> dot mu E = z * p"
proof -
  from field_potential_defined [OF assms(1), of z r mu] obtain E p where
    E: "ion_field this z r = Some E" and p: "dipole_potential this mu r = Some p"
    by auto
  from field_potential_option_identity [of mu this z r] E p have "dot mu E = z * p"
    by simp
  with E p show ?thesis by blast
qed

theorem field_potential_identity_witness:
  "constructed (Fanourgakis 29) \<and> 0 < norm3 (Vec3 23 0 0)
   \<and> (\<exists>E p. ion_field (Fanourgakis 29) 2 (Vec3 23 0 0) = Some E
          \<and> dipole_potential (Fanourgakis 29) (Vec3 19 7 11) (Vec3 23 0 0) = Some p
          \<and> dot (Vec3 19 7 11) E = 2 * p)"
proof -
  have 1: "constructed (Fanourgakis 29)"
    by (rule constructed.Fanourgakis)
  have 2: "0 < norm3 (Vec3 23 0 0)"
    by (simp add: norm3_def squaredNorm_def)
  show ?thesis
    using 1 2 field_potential_identity [OF 1 2, of 2 "Vec3 19 7 11"] by blast
qed

end
